theory Spec2Isabelle
  imports Complex_Main "HOL-Library.Char_ord" "HOL-Library.List_Lexorder" "HOL-Library.Multiset"
begin

section \<open>Values and the host environment\<close>

text \<open>
  The export module of \<^verbatim>\<open>src/js/approval.js\<close> (class \<^verbatim>\<open>ExportSystem\<close>) works on
  JavaScript values. A value is undefined, null, a boolean, a number (integers only: the
  engine's numbers are levels, counts and millisecond timestamps, all of fewer than 22
  digits, which are written in plain decimal), a string, a valid \<^verbatim>\<open>Date\<close> (its time
  value in milliseconds), an array or a plain object (its own properties in insertion
  order). Functions are not values of the model.
\<close>

datatype jsval =
    JUndefined
  | JNull
  | JBool bool
  | JNum int
  | JStr string
  | JDate int
  | JArr "jsval list"
  | JObj "(string \<times> jsval) list"

type_synonym obj = "(string \<times> jsval) list"

text \<open>
  What the source takes from the JavaScript host and not from this repository: the
  built-ins whose result depends on the engine, the locale or the clock. They are
  parameters of the model.
\<close>

record host =
  stringify :: "jsval \<Rightarrow> string"        \<comment> \<open>\<^verbatim>\<open>JSON.stringify(v, null, 2)\<close>\<close>
  blobSize :: "string \<Rightarrow> nat"            \<comment> \<open>\<^verbatim>\<open>new Blob([s]).size\<close>\<close>
  toISOString :: "int \<Rightarrow> string"         \<comment> \<open>\<^verbatim>\<open>Date.prototype.toISOString\<close>\<close>
  dateToString :: "int \<Rightarrow> string"        \<comment> \<open>\<^verbatim>\<open>Date.prototype.toString\<close>\<close>
  dateParse :: "string \<Rightarrow> int option"    \<comment> \<open>\<^verbatim>\<open>new Date(s)\<close> of a string; None is Invalid Date\<close>
  stringToNumber :: "string \<Rightarrow> int option"  \<comment> \<open>\<^verbatim>\<open>Number(s)\<close>; None is NaN\<close>
  functionToString :: "string \<Rightarrow> string"   \<comment> \<open>\<^verbatim>\<open>String(Object.prototype[name])\<close> of a built-in method\<close>
  now :: int                                   \<comment> \<open>the clock, read by \<^verbatim>\<open>new Date()\<close>\<close>

datatype error = Error string | TypeError string

section \<open>Strings\<close>

definition dquote :: char where
  "dquote = CHR 0x22"

definition newline :: char where
  "newline = CHR 0x0A"

definition apostrophe :: char where
  "apostrophe = CHR 0x27"

text \<open>\<^verbatim>\<open>parts.join(sep)\<close> on an array of strings.\<close>

fun join :: "string \<Rightarrow> string list \<Rightarrow> string" where
  "join sep [] = []"
| "join sep [s] = s"
| "join sep (s # t # rest) = s @ sep @ join sep (t # rest)"

text \<open>\<^verbatim>\<open>s.replace(/c/g, rep)\<close> for a one-character pattern.\<close>

definition replaceAll :: "char \<Rightarrow> string \<Rightarrow> string \<Rightarrow> string" where
  "replaceAll c rep s = concat (map (\<lambda>d. if d = c then rep else [d]) s)"

text \<open>\<^verbatim>\<open>s.includes(c)\<close> for a one-character needle.\<close>

definition str_includes :: "string \<Rightarrow> char \<Rightarrow> bool" where
  "str_includes s c = (c \<in> set s)"

text \<open>The decimal digits of a number, as a template literal or \<^verbatim>\<open>toString\<close> writes an integer.\<close>

definition digit :: "nat \<Rightarrow> char" where
  "digit d = ''0123456789'' ! d"

fun showNat :: "nat \<Rightarrow> string" where
  "showNat n = (if n < 10 then [digit n] else showNat (n div 10) @ [digit (n mod 10)])"

declare showNat.simps [simp del]

definition showInt :: "int \<Rightarrow> string" where
  "showInt i = (if i < 0 then CHR ''-'' # showNat (nat (- i)) else showNat (nat i))"

text \<open>
  String conversion of a value. Inside \<^verbatim>\<open>Array.prototype.join\<close> undefined and null
  elements give the empty string; a plain object gives \<^verbatim>\<open>[object Object]\<close>, through
  the \<^verbatim>\<open>toString\<close> it inherits. The values of the model hold no functions, so an own
  property named \<^verbatim>\<open>toString\<close> hides the inherited method behind a value that cannot be
  called: the conversion of such an object, and of an array that holds one at any depth,
  raises a TypeError. \<open>converts\<close> tells whether the conversion completes, and
  \<open>str_of\<close> is its result when it does.
\<close>

fun converts :: "jsval \<Rightarrow> bool" where
  "converts (JArr vs) = list_all converts vs"
| "converts (JObj ps) = (map_of ps ''toString'' = None)"
| "converts v = True"

fun str_of :: "host \<Rightarrow> jsval \<Rightarrow> string" where
  "str_of h JUndefined = []"
| "str_of h JNull = []"
| "str_of h (JBool b) = (if b then ''true'' else ''false'')"
| "str_of h (JNum n) = showInt n"
| "str_of h (JStr s) = s"
| "str_of h (JDate t) = dateToString h t"
| "str_of h (JArr vs) = join '','' (map (str_of h) vs)"
| "str_of h (JObj ps) = ''[object Object]''"

text \<open>
  The method call \<^verbatim>\<open>v.toString()\<close>: reading a property of undefined or null raises
  a TypeError, and so does the call when the conversion does not complete.
\<close>

definition toString :: "host \<Rightarrow> jsval \<Rightarrow> error + string" where
  "toString h v =
     (if v = JUndefined \<or> v = JNull
      then Inl (TypeError ''Cannot read properties of undefined or null'')
      else if converts v then Inr (str_of h v)
      else Inl (TypeError (case v of
                  JObj ps \<Rightarrow> ''str.toString is not a function''
                | _ \<Rightarrow> ''Cannot convert object to primitive value'')))"

section \<open>Escaping\<close>

text \<open>
  \<^verbatim>\<open>escapeCsv(str)\<close>, lines 761-768:
  \<^verbatim>\<open>
    if (str === null || str === undefined) return '';
    const string = str.toString();
    if (string.includes(',') || string.includes('"') || string.includes('\n')) {
        return `"${string.replace(/"/g, '""')}"`;
    }
    return string;
  \<close>
\<close>

definition escapeCsv :: "host \<Rightarrow> jsval \<Rightarrow> error + string" where
  "escapeCsv h str =
     (if str = JNull \<or> str = JUndefined then Inr []
      else case toString h str of
        Inl e \<Rightarrow> Inl e
      | Inr string \<Rightarrow>
          if str_includes string (CHR '','') \<or> str_includes string dquote \<or> str_includes string newline
          then Inr ([dquote] @ replaceAll dquote [dquote, dquote] string @ [dquote])
          else Inr string)"

text \<open>
  \<^verbatim>\<open>escapeXml(str)\<close>, lines 770-778: the same guard, then five replacements in sequence
  (\<^verbatim>\<open>&\<close> first).
\<close>

definition escapeXml :: "host \<Rightarrow> jsval \<Rightarrow> error + string" where
  "escapeXml h str =
     (if str = JNull \<or> str = JUndefined then Inr []
      else case toString h str of
        Inl e \<Rightarrow> Inl e
      | Inr string \<Rightarrow>
          Inr (replaceAll apostrophe ''&#39;''
                (replaceAll dquote ''&quot;''
                  (replaceAll (CHR ''>'') ''&gt;''
                    (replaceAll (CHR ''<'') ''&lt;''
                      (replaceAll (CHR ''&'') ''&amp;'' string))))))"

text \<open>
  \<^verbatim>\<open>s.includes(sub)\<close> for a string needle, and \<^verbatim>\<open>s.toLowerCase()\<close>: the letters
  A to Z are lowered, every other character of the (ASCII) string is kept.
\<close>

fun includes_str :: "string \<Rightarrow> string \<Rightarrow> bool" where
  "includes_str [] sub = (sub = [])"
| "includes_str (c # cs) sub = (take (length sub) (c # cs) = sub \<or> includes_str cs sub)"

definition lower_char :: "char \<Rightarrow> char" where
  "lower_char c =
     (if CHR ''A'' \<le> c \<and> c \<le> CHR ''Z'' then char_of (of_char c + (32::nat)) else c)"

definition toLowerCase :: "string \<Rightarrow> string" where
  "toLowerCase s = map lower_char s"

section \<open>Data model\<close>

text \<open>
  A request as the engine reads it: \<^verbatim>\<open>id\<close>, \<^verbatim>\<open>requester\<close>, \<^verbatim>\<open>subject\<close>,
  \<^verbatim>\<open>workflowId\<close> and the \<^verbatim>\<open>metadata\<close> block, whose timestamps are \<^verbatim>\<open>Date\<close>
  objects (\<^verbatim>\<open>completedAt\<close> absent until the request is terminal) and whose events are
  plain objects. \<^verbatim>\<open>sanitizeRequest\<close> also reads the optional nested objects
  \<^verbatim>\<open>workflow\<close> and \<^verbatim>\<open>data\<close>: a request holds a reference to each, an address in the
  object store of the system, so that two holders of one reference see the same object.
  The metadata block is held by value: the engine never writes through it (it writes to a
  copy, see \<^verbatim>\<open>sanitizeRequest\<close>).
\<close>

record request_metadata =
  status :: string
  submittedAt :: int
  completedAt :: "int option"
  currentLevel :: int
  approvals :: "obj list"
  rejections :: "obj list"
  comments :: "obj list"

record request =
  req_id :: string
  requester :: string
  subject :: string
  workflowId :: string
  metadata :: request_metadata
  workflow :: "nat option"
  data :: "nat option"

text \<open>
  The approval system the engine is constructed over (its own code is not part of the
  sources): the values of the \<^verbatim>\<open>requests\<close> map in insertion order, the store of nested
  objects, what \<^verbatim>\<open>getStatistics()\<close> returns, and how many times it has been called.
\<close>

record approvalSystem =
  requests :: "request list"
  objects :: "nat \<Rightarrow> obj option"
  statistics :: jsval
  statisticsCalls :: nat

record exportSystem =
  approvalSystem :: approvalSystem
  exportFormats :: "string list"

text \<open>The constructor, lines 10-15.\<close>

definition newExportSystem :: "approvalSystem \<Rightarrow> exportSystem" where
  "newExportSystem sys =
     \<lparr>approvalSystem = sys, exportFormats = [''csv'', ''json'', ''excel'', ''pdf'', ''xml'']\<rparr>"

text \<open>
  \<^verbatim>\<open>options.filters\<close>: every criterion is optional (None: the property is absent).
  The bounds of \<^verbatim>\<open>dateRange\<close> are timestamps.
\<close>

record filters =
  dateRange_f :: "(int \<times> int) option"
  status_f :: "string option"
  requester_f :: "string option"
  workflowId_f :: "string option"
  sortBy_f :: "string option"
  sortOrder_f :: "string option"
  limit_f :: "int option"

record options =
  filters :: "filters option"
  mode :: "string option"
  sheet :: "string option"
  includeAll :: bool
  title :: "string option"

text \<open>\<^verbatim>\<open>options.filters || {}\<close>: the empty object has no criterion.\<close>

definition no_filters :: filters where
  "no_filters = \<lparr>dateRange_f = None, status_f = None, requester_f = None, workflowId_f = None,
     sortBy_f = None, sortOrder_f = None, limit_f = None\<rparr>"

text \<open>
  The test \<^verbatim>\<open>if (filters.x)\<close> and the default \<^verbatim>\<open>filters.x || d\<close> on an optional string:
  the empty string is falsy, as an absent property is.
\<close>

definition given :: "string option \<Rightarrow> string option" where
  "given x = (case x of None \<Rightarrow> None | Some s \<Rightarrow> if s = [] then None else Some s)"

definition falsy :: "jsval \<Rightarrow> bool" where
  "falsy v = (v = JUndefined \<or> v = JNull \<or> v = JBool False \<or> v = JNum 0 \<or> v = JStr [])"

section \<open>Query Engine\<close>

text \<open>
  Property reads \<^verbatim>\<open>a.metadata[sortField]\<close> and \<^verbatim>\<open>a[sortField]\<close> over the own
  properties of the two objects; any other name reads undefined.
\<close>

definition metadata_obj :: "request_metadata \<Rightarrow> obj" where
  "metadata_obj m =
     [(''status'', JStr (status m)),
      (''submittedAt'', JDate (submittedAt m)),
      (''completedAt'', (case completedAt m of None \<Rightarrow> JUndefined | Some t \<Rightarrow> JDate t)),
      (''currentLevel'', JNum (currentLevel m)),
      (''approvals'', JArr (map JObj (approvals m))),
      (''rejections'', JArr (map JObj (rejections m))),
      (''comments'', JArr (map JObj (comments m)))]"

definition deref :: "(nat \<Rightarrow> obj option) \<Rightarrow> nat option \<Rightarrow> jsval" where
  "deref store ref =
     (case ref of None \<Rightarrow> JUndefined
      | Some a \<Rightarrow> (case store a of None \<Rightarrow> JUndefined | Some ob \<Rightarrow> JObj ob))"

definition request_obj :: "(nat \<Rightarrow> obj option) \<Rightarrow> request \<Rightarrow> obj" where
  "request_obj store r =
     [(''id'', JStr (req_id r)),
      (''requester'', JStr (requester r)),
      (''subject'', JStr (subject r)),
      (''workflowId'', JStr (workflowId r)),
      (''metadata'', JObj (metadata_obj (metadata r))),
      (''workflow'', deref store (workflow r)),
      (''data'', deref store (data r))]"

definition get_prop :: "obj \<Rightarrow> string \<Rightarrow> jsval" where
  "get_prop ob k = (case map_of ob k of None \<Rightarrow> JUndefined | Some v \<Rightarrow> v)"

text \<open>
  The operands of \<^verbatim>\<open>aValue > bValue\<close>: both sides are made primitive, two strings are
  compared by code units, anything else as numbers, and a comparison with NaN is false.
  The arrays and objects compared are the event lists and nested objects of the records,
  which are taken to carry no own \<^verbatim>\<open>toString\<close> property; their string form is
  \<open>str_of\<close>.
\<close>

datatype prim = PNaN | PNumber int | PString string

definition toPrimitive :: "host \<Rightarrow> jsval \<Rightarrow> prim" where
  "toPrimitive h v =
     (case v of
        JUndefined \<Rightarrow> PNaN
      | JNull \<Rightarrow> PNumber 0
      | JBool b \<Rightarrow> PNumber (if b then 1 else 0)
      | JNum n \<Rightarrow> PNumber n
      | JStr s \<Rightarrow> PString s
      | JDate t \<Rightarrow> PNumber t
      | JArr vs \<Rightarrow> PString (str_of h v)
      | JObj ps \<Rightarrow> PString (str_of h v))"

definition toNumber :: "host \<Rightarrow> prim \<Rightarrow> int option" where
  "toNumber h p =
     (case p of PNaN \<Rightarrow> None | PNumber n \<Rightarrow> Some n | PString s \<Rightarrow> stringToNumber h s)"

definition js_lt :: "host \<Rightarrow> prim \<Rightarrow> prim \<Rightarrow> bool" where
  "js_lt h p q =
     (case (p, q) of
        (PString s, PString t) \<Rightarrow> s < t
      | _ \<Rightarrow> (case (toNumber h p, toNumber h q) of
                (Some a, Some b) \<Rightarrow> a < b
              | _ \<Rightarrow> False))"

definition js_gt :: "host \<Rightarrow> prim \<Rightarrow> prim \<Rightarrow> bool" where
  "js_gt h p q = js_lt h q p"

text \<open>
  \<^verbatim>\<open>new Date(v)\<close>, as its time value (None: Invalid Date). A time value beyond
  8.64e15 ms is invalid.
\<close>

definition timeClip :: "int \<Rightarrow> int option" where
  "timeClip n = (if \<bar>n\<bar> \<le> 8640000000000000 then Some n else None)"

definition newDate :: "host \<Rightarrow> jsval \<Rightarrow> int option" where
  "newDate h v =
     (case v of
        JUndefined \<Rightarrow> None
      | JNull \<Rightarrow> Some 0
      | JBool b \<Rightarrow> Some (if b then 1 else 0)
      | JNum n \<Rightarrow> timeClip n
      | JStr s \<Rightarrow> dateParse h s
      | JDate t \<Rightarrow> Some t
      | JArr vs \<Rightarrow> dateParse h (str_of h v)
      | JObj ps \<Rightarrow> dateParse h (str_of h v))"

text \<open>
  The comparator of lines 172-186:
  \<^verbatim>\<open>
    let aValue = a.metadata[sortField] || a[sortField];
    let bValue = b.metadata[sortField] || b[sortField];
    if (sortField.includes('At')) { aValue = new Date(aValue); bValue = new Date(bValue); }
    if (sortOrder === 'asc') { return aValue > bValue ? 1 : -1; }
    else { return aValue < bValue ? 1 : -1; }
  \<close>
  \<open>sortValue\<close> is \<^verbatim>\<open>aValue\<close> as the comparison reads it.
\<close>

definition sortValue :: "host \<Rightarrow> (nat \<Rightarrow> obj option) \<Rightarrow> string \<Rightarrow> request \<Rightarrow> prim" where
  "sortValue h store sortField a =
     (let m = get_prop (metadata_obj (metadata a)) sortField;
          aValue = (if falsy m then get_prop (request_obj store a) sortField else m)
      in if includes_str sortField ''At''
         then (case newDate h aValue of None \<Rightarrow> PNaN | Some t \<Rightarrow> PNumber t)
         else toPrimitive h aValue)"

definition compareFn ::
  "host \<Rightarrow> (nat \<Rightarrow> obj option) \<Rightarrow> string \<Rightarrow> string \<Rightarrow> request \<Rightarrow> request \<Rightarrow> int" where
  "compareFn h store sortField sortOrder a b =
     (let aValue = sortValue h store sortField a;
          bValue = sortValue h store sortField b
      in if sortOrder = ''asc''
         then (if js_gt h aValue bValue then 1 else - 1)
         else (if js_lt h aValue bValue then 1 else - 1))"

text \<open>
  \<^verbatim>\<open>Array.prototype.sort(compareFn)\<close>. The language fixes the result only up to the
  algorithm of the engine; the model is the stable insertion sort: each element in turn
  moves left past the elements \<open>tmp\<close> with \<open>compareFn tmp element > 0\<close>.
  In \<open>shift\<close> the part already sorted is held from right to left.
\<close>

fun shift :: "('a \<Rightarrow> 'a \<Rightarrow> int) \<Rightarrow> 'a \<Rightarrow> 'a list \<Rightarrow> 'a list" where
  "shift cmp element [] = [element]"
| "shift cmp element (tmp # rest) =
     (if cmp tmp element > 0 then tmp # shift cmp element rest else element # tmp # rest)"

definition array_sort :: "('a \<Rightarrow> 'a \<Rightarrow> int) \<Rightarrow> 'a list \<Rightarrow> 'a list" where
  "array_sort cmp xs = rev (foldl (\<lambda>done element. shift cmp element done) [] xs)"

text \<open>\<^verbatim>\<open>xs.slice(0, n)\<close>: a negative \<open>n\<close> counts from the end.\<close>

definition slice0 :: "'a list \<Rightarrow> int \<Rightarrow> 'a list" where
  "slice0 xs n = (if n < 0 then take (nat (int (length xs) + n)) xs else take (nat n) xs)"

text \<open>\<^verbatim>\<open>{ ...a, requestId: id }\<close>: a copy of the event with the property set.\<close>

definition set_prop :: "obj \<Rightarrow> string \<Rightarrow> jsval \<Rightarrow> obj" where
  "set_prop ob k v =
     (if k \<in> fst ` set ob then map (\<lambda>(k', v'). if k' = k then (k', v) else (k', v')) ob
      else ob @ [(k, v)])"

record export_data =
  d_requests :: "request list"
  d_approvals :: "obj list"
  d_rejections :: "obj list"
  d_comments :: "obj list"
  d_statistics :: jsval

definition related :: "(request_metadata \<Rightarrow> obj list) \<Rightarrow> request list \<Rightarrow> obj list" where
  "related events rs =
     concat (map (\<lambda>request.
       map (\<lambda>a. set_prop a ''requestId'' (JStr (req_id request))) (events (metadata request))) rs)"

text \<open>
  \<^verbatim>\<open>getExportData(options)\<close>, lines 135-211: the four filters, each applied when its
  criterion is truthy, the sort, the limit, the related events, and one call of
  \<^verbatim>\<open>getStatistics()\<close>.
\<close>

definition filtered :: "filters \<Rightarrow> request list \<Rightarrow> request list" where
  "filtered f allRequests =
     (let r1 = (case dateRange_f f of
                  None \<Rightarrow> allRequests
                | Some (start, end) \<Rightarrow>
                    filter (\<lambda>request. submittedAt (metadata request) \<ge> start \<and>
                                      submittedAt (metadata request) \<le> end) allRequests);
          r2 = (case given (status_f f) of
                  None \<Rightarrow> r1
                | Some s \<Rightarrow> filter (\<lambda>request. status (metadata request) = s) r1);
          r3 = (case given (requester_f f) of
                  None \<Rightarrow> r2
                | Some s \<Rightarrow> filter (\<lambda>request. requester request = s) r2);
          r4 = (case given (workflowId_f f) of
                  None \<Rightarrow> r3
                | Some s \<Rightarrow> filter (\<lambda>request. workflowId request = s) r3)
      in r4)"

definition sorted_requests :: "host \<Rightarrow> (nat \<Rightarrow> obj option) \<Rightarrow> filters \<Rightarrow> request list \<Rightarrow> request list" where
  "sorted_requests h store f rs =
     (let sortField = (case given (sortBy_f f) of None \<Rightarrow> ''submittedAt'' | Some s \<Rightarrow> s);
          sortOrder = (case given (sortOrder_f f) of None \<Rightarrow> ''desc'' | Some s \<Rightarrow> s)
      in array_sort (compareFn h store sortField sortOrder) rs)"

definition limited :: "filters \<Rightarrow> request list \<Rightarrow> request list" where
  "limited f rs =
     (case limit_f f of
        None \<Rightarrow> rs
      | Some n \<Rightarrow> if n = 0 then rs else slice0 rs n)"

definition getExportData :: "host \<Rightarrow> approvalSystem \<Rightarrow> options \<Rightarrow> approvalSystem \<times> export_data" where
  "getExportData h sys opts =
     (let f = (case filters opts of None \<Rightarrow> no_filters | Some f \<Rightarrow> f);
          allRequests = requests sys;
          filteredRequests =
            limited f (sorted_requests h (objects sys) f (filtered f allRequests))
      in (sys\<lparr>statisticsCalls := statisticsCalls sys + 1\<rparr>,
          \<lparr>d_requests = filteredRequests,
           d_approvals = related approvals filteredRequests,
           d_rejections = related rejections filteredRequests,
           d_comments = related comments filteredRequests,
           d_statistics = statistics sys\<rparr>))"

section \<open>Statistics Calculator\<close>

text \<open>
  \<^verbatim>\<open>formatDuration(ms)\<close>, lines 797-807. \<^verbatim>\<open>Math.floor(x / k)\<close> of an integer is
  \<open>div\<close>; \<^verbatim>\<open>%\<close> takes the sign of its left operand.
\<close>

definition js_rem :: "int \<Rightarrow> int \<Rightarrow> int" where
  "js_rem a b = sgn a * (\<bar>a\<bar> mod \<bar>b\<bar>)"

definition formatDuration :: "rat \<Rightarrow> string" where
  "formatDuration ms =
     (let seconds = \<lfloor>ms / 1000\<rfloor>;
          minutes = seconds div 60;
          hours = minutes div 60;
          days = hours div 24
      in if days > 0 then showInt days @ ''d '' @ showInt (js_rem hours 24) @ ''h''
         else if hours > 0 then showInt hours @ ''h '' @ showInt (js_rem minutes 60) @ ''m''
         else if minutes > 0 then showInt minutes @ ''m '' @ showInt (js_rem seconds 60) @ ''s''
         else showInt seconds @ ''s'')"

text \<open>
  \<^verbatim>\<open>calculateAverageApprovalTime(requests)\<close>, lines 708-724. A \<^verbatim>\<open>Date\<close> is truthy, so
  \<^verbatim>\<open>r.metadata.completedAt\<close> tests that the timestamp is set. \<open>elapsed\<close> is
  \<^verbatim>\<open>end - start\<close>; it is only applied to requests that passed the filter, whose
  \<open>completedAt\<close> is set. The source adds and divides in double precision; the model
  adds integers and takes the exact quotient. The properties of the mean are stated for
  requests whose elapsed times, added up in absolute value, stay below \<open>2 ^ 52\<close> ms
  (\<open>in_double_range\<close>): there every sum is an integer that a double holds exactly, and
  the roundings of \<^verbatim>\<open>(totalTime / n) / 1000\<close> stay within the same whole second.
\<close>

definition elapsed :: "request \<Rightarrow> int" where
  "elapsed req =
     (case completedAt (metadata req) of
        None \<Rightarrow> 0
      | Some end \<Rightarrow> end - submittedAt (metadata req))"

definition approved_completed :: "request \<Rightarrow> bool" where
  "approved_completed r = (status (metadata r) = ''approved'' \<and> completedAt (metadata r) \<noteq> None)"

definition in_double_range :: "request list \<Rightarrow> bool" where
  "in_double_range rs = (sum_list (map (\<lambda>r. \<bar>elapsed r\<bar>) rs) < 2 ^ 52)"

definition calculateAverageApprovalTime :: "request list \<Rightarrow> string" where
  "calculateAverageApprovalTime rs =
     (let approvedRequests = filter approved_completed rs
      in if length approvedRequests = 0 then ''N/A''
         else let totalTime = foldl (\<lambda>sum req. sum + elapsed req) 0 approvedRequests;
                  avgMs = of_int totalTime / of_int (int (length approvedRequests))
              in formatDuration avgMs)"

text \<open>
  \<^verbatim>\<open>getMostActiveRequester\<close> and \<^verbatim>\<open>getMostCommonWorkflow\<close>, lines 729-756:
  \<^verbatim>\<open>
    if (requests.length === 0) return 'N/A';
    const requesterCounts = {};
    requests.forEach(req => {
        requesterCounts[req.requester] = (requesterCounts[req.requester] || 0) + 1;
    });
    return Object.keys(requesterCounts).reduce((a, b) =>
        requesterCounts[a] > requesterCounts[b] ? a : b);
  \<close>
  The counting object is a plain object, so a key is also looked up in
  \<^verbatim>\<open>Object.prototype\<close>. For a name that is a method there (\<open>inherited\<close>) the first
  read gives the function, and \<^verbatim>\<open>+ 1\<close> appends \<^verbatim>\<open>1\<close> to its source text: the count
  is then a string. For \<^verbatim>\<open>__proto__\<close> the read gives the prototype and the write goes
  to the setter of \<^verbatim>\<open>__proto__\<close>, which ignores a string: no own key is made.
  \<^verbatim>\<open>Object.keys\<close> lists the keys that are array indices first, in ascending order, then
  the other keys in insertion order, and \<^verbatim>\<open>reduce\<close> without an initial value raises
  a TypeError on an empty key list.
\<close>

datatype count = CNum nat | CText string

definition inherited :: "string list" where
  "inherited =
     [''constructor'', ''__defineGetter__'', ''__defineSetter__'', ''hasOwnProperty'',
      ''__lookupGetter__'', ''__lookupSetter__'', ''isPrototypeOf'', ''propertyIsEnumerable'',
      ''toString'', ''valueOf'', ''toLocaleString'']"

text \<open>\<^verbatim>\<open>(counts[k] || 0) + 1\<close>, for a key other than \<^verbatim>\<open>__proto__\<close>.\<close>

definition incremented :: "host \<Rightarrow> (string \<times> count) list \<Rightarrow> string \<Rightarrow> count" where
  "incremented h counts k =
     (case map_of counts k of
        Some (CNum n) \<Rightarrow> CNum (n + 1)
      | Some (CText s) \<Rightarrow> if s = [] then CNum 1 else CText (s @ ''1'')
      | None \<Rightarrow> if k \<in> set inherited then CText (functionToString h k @ ''1'') else CNum 1)"

text \<open>\<^verbatim>\<open>counts[k] = v\<close>: the own property is replaced in place, or added at the end.\<close>

fun assign :: "string \<Rightarrow> count \<Rightarrow> (string \<times> count) list \<Rightarrow> (string \<times> count) list" where
  "assign k v [] = [(k, v)]"
| "assign k v ((k', v') # rest) =
     (if k' = k then (k', v) # rest else (k', v') # assign k v rest)"

definition bump :: "host \<Rightarrow> string \<Rightarrow> (string \<times> count) list \<Rightarrow> (string \<times> count) list" where
  "bump h k counts =
     (if k = ''__proto__'' then counts else assign k (incremented h counts k) counts)"

definition count_by ::
  "host \<Rightarrow> (request \<Rightarrow> string) \<Rightarrow> request list \<Rightarrow> (string \<times> count) list" where
  "count_by h key rs = foldl (\<lambda>counts req. bump h (key req) counts) [] rs"

definition is_digit :: "char \<Rightarrow> bool" where
  "is_digit c = (CHR ''0'' \<le> c \<and> c \<le> CHR ''9'')"

definition array_index :: "string \<Rightarrow> nat option" where
  "array_index s =
     (let n = foldl (\<lambda>n c. 10 * n + (of_char c - 48)) (0::nat) s
      in if s \<noteq> [] \<and> list_all is_digit s \<and> (s = ''0'' \<or> take 1 s \<noteq> ''0'') \<and> n < 4294967295
         then Some n else None)"

definition object_keys :: "(string \<times> count) list \<Rightarrow> string list" where
  "object_keys counts =
     (let ks = map fst counts
      in sort_key (\<lambda>k. case array_index k of None \<Rightarrow> 0 | Some n \<Rightarrow> n)
           (filter (\<lambda>k. array_index k \<noteq> None) ks)
         @ filter (\<lambda>k. array_index k = None) ks)"

text \<open>\<^verbatim>\<open>counts[a]\<close> of an own key, as an operand of the comparison.\<close>

definition count_of :: "(string \<times> count) list \<Rightarrow> string \<Rightarrow> prim" where
  "count_of counts k =
     (case map_of counts k of
        None \<Rightarrow> PNaN
      | Some (CNum n) \<Rightarrow> PNumber (int n)
      | Some (CText s) \<Rightarrow> PString s)"

definition most_frequent :: "host \<Rightarrow> (request \<Rightarrow> string) \<Rightarrow> request list \<Rightarrow> error + string" where
  "most_frequent h key rs =
     (if length rs = 0 then Inr ''N/A''
      else let counts = count_by h key rs
           in case object_keys counts of
                [] \<Rightarrow> Inl (TypeError ''Reduce of empty array with no initial value'')
              | k # ks \<Rightarrow>
                  Inr (foldl (\<lambda>a b. if js_gt h (count_of counts a) (count_of counts b) then a else b)
                         k ks))"

definition getMostActiveRequester :: "host \<Rightarrow> request list \<Rightarrow> error + string" where
  "getMostActiveRequester h rs = most_frequent h requester rs"

definition getMostCommonWorkflow :: "host \<Rightarrow> request list \<Rightarrow> error + string" where
  "getMostCommonWorkflow h rs = most_frequent h workflowId rs"

text \<open>
  \<^verbatim>\<open>createSummary(data)\<close>, lines 652-665. The properties of the object literal are
  evaluated in order; the last two can raise, and then no summary is returned.
\<close>

record summary =
  totalRequests :: nat
  pendingRequests :: nat
  approvedRequests :: nat
  rejectedRequests :: nat
  totalApprovals :: nat
  totalRejections :: nat
  totalComments :: nat
  avgApprovalTime :: string
  mostActiveRequester :: string
  mostCommonWorkflow :: string

definition createSummary :: "host \<Rightarrow> export_data \<Rightarrow> error + summary" where
  "createSummary h d =
     (case getMostActiveRequester h (d_requests d) of
        Inl e \<Rightarrow> Inl e
      | Inr active \<Rightarrow>
          (case getMostCommonWorkflow h (d_requests d) of
             Inl e \<Rightarrow> Inl e
           | Inr common \<Rightarrow>
               Inr \<lparr>totalRequests = length (d_requests d),
                    pendingRequests =
                      length (filter (\<lambda>r. status (metadata r) = ''pending'') (d_requests d)),
                    approvedRequests =
                      length (filter (\<lambda>r. status (metadata r) = ''approved'') (d_requests d)),
                    rejectedRequests =
                      length (filter (\<lambda>r. status (metadata r) = ''rejected'') (d_requests d)),
                    totalApprovals = length (d_approvals d),
                    totalRejections = length (d_rejections d),
                    totalComments = length (d_comments d),
                    avgApprovalTime = calculateAverageApprovalTime (d_requests d),
                    mostActiveRequester = active,
                    mostCommonWorkflow = common\<rparr>))"

text \<open>The summary as the object literal the source builds, in the order of its properties.\<close>

definition summary_obj :: "summary \<Rightarrow> jsval" where
  "summary_obj s = JObj
     [(''totalRequests'', JNum (int (totalRequests s))),
      (''pendingRequests'', JNum (int (pendingRequests s))),
      (''approvedRequests'', JNum (int (approvedRequests s))),
      (''rejectedRequests'', JNum (int (rejectedRequests s))),
      (''totalApprovals'', JNum (int (totalApprovals s))),
      (''totalRejections'', JNum (int (totalRejections s))),
      (''totalComments'', JNum (int (totalComments s))),
      (''avgApprovalTime'', JStr (avgApprovalTime s)),
      (''mostActiveRequester'', JStr (mostActiveRequester s)),
      (''mostCommonWorkflow'', JStr (mostCommonWorkflow s))]"

section \<open>Structured-data renderer\<close>

text \<open>\<^verbatim>\<open>createMinimalData(data)\<close>, lines 670-682.\<close>

definition minimal_request :: "request \<Rightarrow> jsval" where
  "minimal_request req = JObj
     [(''id'', JStr (req_id req)),
      (''requester'', JStr (requester req)),
      (''subject'', JStr (subject req)),
      (''status'', JStr (status (metadata req))),
      (''submittedAt'', JDate (submittedAt (metadata req))),
      (''workflow'', JStr (workflowId req))]"

definition createMinimalData :: "host \<Rightarrow> export_data \<Rightarrow> error + jsval" where
  "createMinimalData h d =
     (case createSummary h d of
        Inl e \<Rightarrow> Inl e
      | Inr s \<Rightarrow>
          Inr (JObj
            [(''requests'', JArr (map minimal_request (d_requests d))),
             (''summary'', summary_obj s)]))"

text \<open>
  \<^verbatim>\<open>sanitizeRequest(request)\<close>, lines 687-703:
  \<^verbatim>\<open>
    const sanitized = { ...request };
    delete sanitized.workflow?.approvers;
    delete sanitized.data?.sensitiveInfo;
    sanitized.metadata = { ...sanitized.metadata };
    Object.keys(sanitized.metadata).forEach(key => {
        if (sanitized.metadata[key] instanceof Date) {
            sanitized.metadata[key] = sanitized.metadata[key].toISOString();
        }
    });
    return sanitized;
  \<close>
  The spread copies the properties of the request, so \<^verbatim>\<open>sanitized.workflow\<close> and
  \<^verbatim>\<open>sanitized.data\<close> are the references the request holds: each \<^verbatim>\<open>delete\<close> acts
  on the object in the store. The metadata is copied before its dates are replaced.
\<close>

definition delete_prop :: "obj \<Rightarrow> string \<Rightarrow> obj" where
  "delete_prop ob k = filter (\<lambda>(k', v). k' \<noteq> k) ob"

definition delete_at :: "(nat \<Rightarrow> obj option) \<Rightarrow> nat option \<Rightarrow> string \<Rightarrow> (nat \<Rightarrow> obj option)" where
  "delete_at store ref k =
     (case ref of
        None \<Rightarrow> store
      | Some a \<Rightarrow> (case store a of
                    None \<Rightarrow> store
                  | Some ob \<Rightarrow> store(a := Some (delete_prop ob k))))"

record sanitized =
  s_request :: request
  s_metadata :: obj

definition sanitizeRequest ::
  "host \<Rightarrow> (nat \<Rightarrow> obj option) \<Rightarrow> request \<Rightarrow> (nat \<Rightarrow> obj option) \<times> sanitized" where
  "sanitizeRequest h store request =
     (let store1 = delete_at store (workflow request) ''approvers'';
          store2 = delete_at store1 (data request) ''sensitiveInfo'';
          md = map (\<lambda>(key, v). case v of JDate t \<Rightarrow> (key, JStr (toISOString h t)) | _ \<Rightarrow> (key, v))
                 (metadata_obj (metadata request))
      in (store2, \<lparr>s_request = request, s_metadata = md\<rparr>))"

text \<open>\<^verbatim>\<open>data.requests.map(req => this.sanitizeRequest(req))\<close>, in order, on one store.\<close>

fun sanitizeAll ::
  "host \<Rightarrow> (nat \<Rightarrow> obj option) \<Rightarrow> request list \<Rightarrow> (nat \<Rightarrow> obj option) \<times> sanitized list" where
  "sanitizeAll h store [] = (store, [])"
| "sanitizeAll h store (req # rest) =
     (let (store1, s) = sanitizeRequest h store req;
          (store2, ss) = sanitizeAll h store1 rest
      in (store2, s # ss))"

text \<open>The sanitized object as the serializer reads it, after all the requests are mapped.\<close>

definition sanitized_obj :: "(nat \<Rightarrow> obj option) \<Rightarrow> sanitized \<Rightarrow> jsval" where
  "sanitized_obj store s = JObj
     (map (\<lambda>(k, v). if k = ''metadata'' then (k, JObj (s_metadata s)) else (k, v))
        (request_obj store (s_request s)))"

record rendered =
  content :: string
  filename :: string
  mimeType :: string
  size :: nat

text \<open>\<^verbatim>\<open>new Date().toISOString().split('T')[0]\<close>\<close>

definition today :: "host \<Rightarrow> string" where
  "today h = takeWhile (\<lambda>c. c \<noteq> CHR ''T'') (toISOString h (now h))"

text \<open>
  \<^verbatim>\<open>exportToJson(data, options)\<close>, lines 265-296. The templates are \<^verbatim>\<open>full\<close>,
  \<^verbatim>\<open>summary\<close> and \<^verbatim>\<open>minimal\<close>; \<^verbatim>\<open>mode\<close> defaults to \<^verbatim>\<open>full\<close> when absent.
\<close>

text \<open>The result object of \<open>exportToJson\<close>, from the mode name and the serialized data.\<close>

definition json_rendered :: "host \<Rightarrow> string \<Rightarrow> string \<Rightarrow> rendered" where
  "json_rendered h m jsonString =
     \<lparr>content = jsonString,
      filename = ''approvals_'' @ m @ ''_'' @ today h @ ''.json'',
      mimeType = ''application/json'',
      size = blobSize h jsonString\<rparr>"

definition exportToJson ::
  "host \<Rightarrow> (nat \<Rightarrow> obj option) \<Rightarrow> export_data \<Rightarrow> options
     \<Rightarrow> (error + rendered) \<times> (nat \<Rightarrow> obj option)" where
  "exportToJson h store d opts =
     (let mode = (case mode opts of None \<Rightarrow> ''full'' | Some m \<Rightarrow> m)
      in if mode \<noteq> ''full'' \<and> mode \<noteq> ''summary'' \<and> mode \<noteq> ''minimal''
         then (Inl (Error (''No JSON template for mode: '' @ mode)), store)
         else if mode = ''full''
         then let (store1, ss) = sanitizeAll h store (d_requests d)
              in (Inr (json_rendered h mode (stringify h (JObj
                        [(''requests'', JArr (map (sanitized_obj store1) ss)),
                         (''approvals'', JArr (map JObj (d_approvals d))),
                         (''rejections'', JArr (map JObj (d_rejections d))),
                         (''comments'', JArr (map JObj (d_comments d))),
                         (''statistics'', d_statistics d)]))),
                  store1)
         else if mode = ''summary''
         then (case createSummary h d of
                 Inl e \<Rightarrow> (Inl e, store)
               | Inr s \<Rightarrow> (Inr (json_rendered h mode (stringify h (summary_obj s))), store))
         else (case createMinimalData h d of
                 Inl e \<Rightarrow> (Inl e, store)
               | Inr v \<Rightarrow> (Inr (json_rendered h mode (stringify h v)), store)))"

section \<open>Export Orchestrator\<close>

text \<open>
  The delimited-text, spreadsheet, document and markup renderers (lines 216-260, 301-345,
  458-533, 538-557) only read \<^verbatim>\<open>data\<close> and \<^verbatim>\<open>options\<close>; their output depends on the
  locale and on the libraries loaded in the page. The orchestrator is modelled over any
  four such renderers.
\<close>

record renderers =
  exportToCsv :: "export_data \<Rightarrow> options \<Rightarrow> error + rendered"
  exportToExcel :: "export_data \<Rightarrow> options \<Rightarrow> error + rendered"
  exportToPdf :: "export_data \<Rightarrow> options \<Rightarrow> error + rendered"
  exportToXml :: "export_data \<Rightarrow> options \<Rightarrow> error + rendered"

record export_metadata =
  exportedAt :: string
  m_format :: string
  recordCount :: nat
  m_filters :: filters
  generatedBy :: string

record export_result = rendered +
  e_metadata :: export_metadata

text \<open>
  \<^verbatim>\<open>exportData(format, options)\<close>, lines 90-130:
  \<^verbatim>\<open>
    if (!this.exportFormats.includes(format.toLowerCase())) {
        throw new Error(`Unsupported format: ${format}. Supported formats: ${this.exportFormats.join(', ')}`);
    }
    const data = await this.getExportData(options);
    switch (format.toLowerCase()) { ... default: throw new Error(`Format ${format} not implemented`); }
    exportResult.metadata = { ... };
    return exportResult;
  \<close>
  The result is the value returned or the error thrown, with the system after the call.
\<close>

definition exportData ::
  "host \<Rightarrow> renderers \<Rightarrow> exportSystem \<Rightarrow> string \<Rightarrow> options
     \<Rightarrow> (error + export_result) \<times> exportSystem" where
  "exportData h rs es format opts =
     (if toLowerCase format \<notin> set (exportFormats es)
      then (Inl (Error (''Unsupported format: '' @ format @ ''. Supported formats: ''
                         @ join '', '' (exportFormats es))), es)
      else
        let (sys, d) = getExportData h (approvalSystem es) opts;
            fmt = toLowerCase format;
            (exportResult, store) =
              (if fmt = ''csv'' then (exportToCsv rs d opts, objects sys)
               else if fmt = ''json'' then exportToJson h (objects sys) d opts
               else if fmt = ''excel'' then (exportToExcel rs d opts, objects sys)
               else if fmt = ''pdf'' then (exportToPdf rs d opts, objects sys)
               else if fmt = ''xml'' then (exportToXml rs d opts, objects sys)
               else (Inl (Error (''Format '' @ format @ '' not implemented'')), objects sys));
            es' = es\<lparr>approvalSystem := sys\<lparr>objects := store\<rparr>\<rparr>
        in case exportResult of
             Inl e \<Rightarrow> (Inl e, es')
           | Inr r \<Rightarrow>
               (Inr (rendered.extend r
                      \<lparr>e_metadata =
                         \<lparr>exportedAt = toISOString h (now h),
                          m_format = format,
                          recordCount = length (d_requests d),
                          m_filters = (case filters opts of None \<Rightarrow> no_filters | Some f \<Rightarrow> f),
                          generatedBy = ''ApprovalSystem Export Module''\<rparr>\<rparr>),
                es'))"

section \<open>The specification's reading of a duration\<close>

text \<open>
  The specification formats a duration from its coarsest applicable unit among days,
  hours, minutes and seconds, the coarsest one of which the duration holds at least one,
  followed by the next finer unit. \<open>spec_duration\<close> writes this down for a duration of
  \<open>s\<close> whole seconds, to be compared with \<open>formatDuration\<close>.
\<close>

definition spec_duration :: "nat \<Rightarrow> string" where
  "spec_duration s =
     (if s \<ge> 86400 then showNat (s div 86400) @ ''d '' @ showNat (s div 3600 mod 24) @ ''h''
      else if s \<ge> 3600 then showNat (s div 3600) @ ''h '' @ showNat (s div 60 mod 60) @ ''m''
      else if s \<ge> 60 then showNat (s div 60) @ ''m '' @ showNat (s mod 60) @ ''s''
      else showNat s @ ''s'')"

text \<open>
  The filter criteria as one predicate: a request meets every criterion that is supplied,
  where a status, requester or workflow criterion given as the empty string counts as not
  supplied. To be compared with \<open>filtered\<close>.
\<close>

definition satisfies :: "filters \<Rightarrow> request \<Rightarrow> bool" where
  "satisfies f r =
     ((case dateRange_f f of
         None \<Rightarrow> True
       | Some (start, end) \<Rightarrow> start \<le> submittedAt (metadata r) \<and> submittedAt (metadata r) \<le> end)
      \<and> (case given (status_f f) of None \<Rightarrow> True | Some s \<Rightarrow> status (metadata r) = s)
      \<and> (case given (requester_f f) of None \<Rightarrow> True | Some s \<Rightarrow> requester r = s)
      \<and> (case given (workflowId_f f) of None \<Rightarrow> True | Some s \<Rightarrow> workflowId r = s))"

section \<open>Sample systems\<close>

text \<open>Concrete hosts, requests and systems on which the theorems below are run.\<close>

definition sample_host :: host where
  "sample_host =
     \<lparr>stringify = (\<lambda>v. ''{}''),
      blobSize = length,
      toISOString = (\<lambda>t. ''1970-01-01T00:00:00.000Z''),
      dateToString = (\<lambda>t. ''Thu Jan 01 1970 00:00:00 GMT+0000''),
      dateParse = (\<lambda>s. None),
      stringToNumber = (\<lambda>s. None),
      functionToString = (\<lambda>name. ''function ''
         @ (if name = ''constructor'' then ''Object'' else name) @ ''() { [native code] }''),
      now = 0\<rparr>"

definition sample_renderers :: renderers where
  "sample_renderers =
     \<lparr>exportToCsv = (\<lambda>d opts. Inr \<lparr>content = ''ID'', filename = ''approvals_requests.csv'',
                                  mimeType = ''text/csv'', size = 2\<rparr>),
      exportToExcel = (\<lambda>d opts. Inl (Error ''Excel export requires ExcelJS library. Please include it in your project.'')),
      exportToPdf = (\<lambda>d opts. Inl (Error ''PDF export requires jsPDF library. Please include it in your project.'')),
      exportToXml = (\<lambda>d opts. Inr \<lparr>content = ''<requests></requests>'', filename = ''approvals.xml'',
                                  mimeType = ''application/xml'', size = 21\<rparr>)\<rparr>"

definition mk_request :: "string \<Rightarrow> string \<Rightarrow> string \<Rightarrow> int \<Rightarrow> int option \<Rightarrow> request" where
  "mk_request i who st t c =
     \<lparr>req_id = i, requester = who, subject = ''Access'', workflowId = ''W1'',
      metadata = \<lparr>status = st, submittedAt = t, completedAt = c, currentLevel = 0,
                   approvals = [], rejections = [], comments = []\<rparr>,
      workflow = None, data = None\<rparr>"

definition sample_requests :: "request list" where
  "sample_requests =
     [mk_request ''R1'' ''A'' ''approved'' 1000 (Some 7201000),
      mk_request ''R2'' ''B'' ''approved'' 5000 (Some 14405000),
      mk_request ''R3'' ''A'' ''pending'' 9000 None]"

definition sample_data :: export_data where
  "sample_data =
     \<lparr>d_requests = sample_requests, d_approvals = [], d_rejections = [], d_comments = [],
      d_statistics = JObj []\<rparr>"

definition sample_system :: approvalSystem where
  "sample_system =
     \<lparr>requests = sample_requests, objects = (\<lambda>a. None), statistics = JObj [],
      statisticsCalls = 0\<rparr>"

definition sample_options :: options where
  "sample_options =
     \<lparr>filters = None, mode = None, sheet = None, includeAll = False, title = None\<rparr>"

text \<open>
  A system whose one request refers to a \<^verbatim>\<open>workflow\<close> object with an
  \<^verbatim>\<open>approvers\<close> list and to a \<^verbatim>\<open>data\<close> object with a \<^verbatim>\<open>sensitiveInfo\<close>
  property.
\<close>

definition shared_request :: request where
  "shared_request =
     \<lparr>req_id = ''R1'', requester = ''A'', subject = ''S'', workflowId = ''W1'',
      metadata = \<lparr>status = ''pending'', submittedAt = 1000, completedAt = None, currentLevel = 0,
                   approvals = [], rejections = [], comments = []\<rparr>,
      workflow = Some 0, data = Some 1\<rparr>"

definition shared_system :: approvalSystem where
  "shared_system =
     \<lparr>requests = [shared_request],
      objects = (\<lambda>a. if a = 0 then Some [(''name'', JStr ''Standard''),
                                          (''approvers'', JArr [JStr ''alice'', JStr ''bob''])]
                     else if a = 1 then Some [(''sensitiveInfo'', JStr ''secret''),
                                              (''note'', JStr ''n'')]
                     else None),
      statistics = JObj [],
      statisticsCalls = 0\<rparr>"

text \<open>A request recorded as completed two hours before it was submitted.\<close>

definition late_request :: request where
  "late_request = mk_request ''R9'' ''A'' ''approved'' 7201000 (Some 1000)"

section \<open>Escaping: properties\<close>

lemma escapeCsv_of_toString:
  "toString h v = Inr s \<Longrightarrow>
   escapeCsv h v =
     Inr (if CHR '','' \<in> set s \<or> dquote \<in> set s \<or> newline \<in> set s
          then [dquote] @ concat (map (\<lambda>c. if c = dquote then [dquote, dquote] else [c]) s)
               @ [dquote]
          else s)"
  by (auto simp: escapeCsv_def toString_def str_includes_def replaceAll_def split: if_splits)

text \<open>
  C5. The CSV escaping step: a string that contains a comma, a double quote or a newline
  becomes that string between double quotes with every double quote in it doubled, and any
  other string is returned unchanged; the same holds of the string form of any value whose
  \<^verbatim>\<open>toString()\<close> returns. The subject \<^verbatim>\<open>Widget, "Pro"\<close> becomes the cell
  \<^verbatim>\<open>"Widget, ""Pro"""\<close>.
\<close>

theorem escapeCsv_quoting:
  "escapeCsv h (JStr s) =
     Inr (if CHR '','' \<in> set s \<or> dquote \<in> set s \<or> newline \<in> set s
          then [dquote] @ concat (map (\<lambda>c. if c = dquote then [dquote, dquote] else [c]) s)
               @ [dquote]
          else s)
   \<and> (toString h v = Inr s \<longrightarrow>
        escapeCsv h v =
          Inr (if CHR '','' \<in> set s \<or> dquote \<in> set s \<or> newline \<in> set s
               then [dquote] @ concat (map (\<lambda>c. if c = dquote then [dquote, dquote] else [c]) s)
                    @ [dquote]
               else s))
   \<and> escapeCsv h (JStr (''Widget, '' @ [dquote] @ ''Pro'' @ [dquote]))
       = Inr ([dquote] @ ''Widget, '' @ [dquote, dquote] @ ''Pro'' @ [dquote, dquote] @ [dquote])"
proof (intro conjI impI)
  have t: "toString h (JStr s) = Inr s" by (simp add: toString_def)
  show "escapeCsv h (JStr s) =
     Inr (if CHR '','' \<in> set s \<or> dquote \<in> set s \<or> newline \<in> set s
          then [dquote] @ concat (map (\<lambda>c. if c = dquote then [dquote, dquote] else [c]) s)
               @ [dquote]
          else s)"
    by (rule escapeCsv_of_toString [OF t])
  show "escapeCsv h v =
          Inr (if CHR '','' \<in> set s \<or> dquote \<in> set s \<or> newline \<in> set s
               then [dquote] @ concat (map (\<lambda>c. if c = dquote then [dquote, dquote] else [c]) s)
                    @ [dquote]
               else s)" if "toString h v = Inr s"
    using that by (rule escapeCsv_of_toString)
  show "escapeCsv h (JStr (''Widget, '' @ [dquote] @ ''Pro'' @ [dquote]))
       = Inr ([dquote] @ ''Widget, '' @ [dquote, dquote] @ ''Pro'' @ [dquote, dquote] @ [dquote])"
    by (simp add: escapeCsv_def toString_def str_includes_def replaceAll_def Let_def
        dquote_def newline_def)
qed

theorem escapeCsv_quoting_witness:
  "toString sample_host (JArr [JStr ''a'', JNull, JStr ''b'']) = Inr ''a,,b''
   \<and> escapeCsv sample_host (JArr [JStr ''a'', JNull, JStr ''b'']) = Inr ([dquote] @ ''a,,b'' @ [dquote])
   \<and> escapeCsv sample_host (JStr ''plain'') = Inr ''plain''"
proof -
  have t: "toString sample_host (JArr [JStr ''a'', JNull, JStr ''b'']) = Inr ''a,,b''"
    by (simp add: toString_def)
  have a: "escapeCsv sample_host (JArr [JStr ''a'', JNull, JStr ''b'']) = Inr ([dquote] @ ''a,,b'' @ [dquote])"
    using escapeCsv_quoting [where h = sample_host and s = "''a,,b''"
        and v = "JArr [JStr ''a'', JNull, JStr ''b'']"] t
    by (simp add: dquote_def)
  have b: "escapeCsv sample_host (JStr ''plain'') = Inr ''plain''"
    using escapeCsv_quoting [where h = sample_host and s = "''plain''" and v = "JStr ''plain''"]
    by (simp add: dquote_def newline_def)
  from t a b show ?thesis by blast
qed

text \<open>
  C10, as the code has it. \<open>escapeCsv\<close> and \<open>escapeXml\<close> return the empty string for
  null and for undefined. For any other value they return a string exactly when its
  conversion to a string completes: always for a boolean, a number, a string and a date,
  for a plain object when it has no own \<^verbatim>\<open>toString\<close> property, and for an array when
  that holds of its elements; otherwise the TypeError of \<^verbatim>\<open>toString()\<close> is raised.
\<close>

theorem escape_total:
  "escapeCsv h JNull = Inr [] \<and> escapeCsv h JUndefined = Inr [] \<and>
   escapeXml h JNull = Inr [] \<and> escapeXml h JUndefined = Inr [] \<and>
   (converts v \<longrightarrow> (\<exists>s. escapeCsv h v = Inr s) \<and> (\<exists>s. escapeXml h v = Inr s)) \<and>
   (\<not> converts v \<longrightarrow> (\<exists>e. escapeCsv h v = Inl e) \<and> (\<exists>e. escapeXml h v = Inl e)) \<and>
   converts (JBool b) \<and> converts (JNum n) \<and> converts (JStr s) \<and> converts (JDate t) \<and>
   (converts (JObj ps) \<longleftrightarrow> map_of ps ''toString'' = None) \<and>
   (converts (JArr vs) \<longleftrightarrow> list_all converts vs) \<and>
   (\<exists>e. toString h JNull = Inl e) \<and> (\<exists>e. toString h JUndefined = Inl e)"
  by (auto simp: escapeCsv_def escapeXml_def toString_def)

theorem escape_total_witness:
  "converts (JArr [JObj [(''approverId'', JStr ''u1'')], JNull, JNum 3])
   \<and> (\<exists>s. escapeXml sample_host (JArr [JObj [(''approverId'', JStr ''u1'')], JNull, JNum 3]) = Inr s)
   \<and> (\<exists>s. escapeCsv sample_host (JArr [JObj [(''approverId'', JStr ''u1'')], JNull, JNum 3]) = Inr s)
   \<and> \<not> converts (JArr [JObj [(''toString'', JNull)]])
   \<and> (\<exists>e. escapeXml sample_host (JArr [JObj [(''toString'', JNull)]]) = Inl e)
   \<and> (\<exists>e. escapeCsv sample_host (JArr [JObj [(''toString'', JNull)]]) = Inl e)"
proof -
  let ?v = "JArr [JObj [(''approverId'', JStr ''u1'')], JNull, JNum 3]"
  let ?w = "JArr [JObj [(''toString'', JNull)]]"
  have c: "converts ?v" by simp
  have n: "\<not> converts ?w" by simp
  from escape_total [where h = sample_host and v = ?v] c
  have a: "(\<exists>s. escapeCsv sample_host ?v = Inr s) \<and> (\<exists>s. escapeXml sample_host ?v = Inr s)"
    by blast
  from escape_total [where h = sample_host and v = ?w] n
  have b: "(\<exists>e. escapeCsv sample_host ?w = Inl e) \<and> (\<exists>e. escapeXml sample_host ?w = Inl e)"
    by blast
  from a b c n show ?thesis by blast
qed

text \<open>
  The object \<^verbatim>\<open>{toString: 1}\<close> is neither null nor undefined, and both functions raise
  on it.
\<close>

theorem escape_own_toString_counterexample:
  "escapeCsv sample_host (JObj [(''toString'', JNum 1)]) = Inl (TypeError ''str.toString is not a function'')
   \<and> escapeXml sample_host (JObj [(''toString'', JNum 1)]) = Inl (TypeError ''str.toString is not a function'')
   \<and> JObj [(''toString'', JNum 1)] \<noteq> JNull \<and> JObj [(''toString'', JNum 1)] \<noteq> JUndefined"
  by (simp add: escapeCsv_def escapeXml_def toString_def)

section \<open>Statistics: properties\<close>

lemma filter_status_partition:
  "\<forall>r \<in> set rs. status (metadata r) = ''pending'' \<or> status (metadata r) = ''approved''
       \<or> status (metadata r) = ''rejected'' \<Longrightarrow>
   length (filter (\<lambda>r. status (metadata r) = ''pending'') rs)
     + length (filter (\<lambda>r. status (metadata r) = ''approved'') rs)
     + length (filter (\<lambda>r. status (metadata r) = ''rejected'') rs) = length rs"
  by (induction rs) auto

lemma map_fst_assign:
  "map fst (assign k v counts)
     = (if k \<in> fst ` set counts then map fst counts else map fst counts @ [k])"
proof (induction counts)
  case Nil
  show ?case by simp
next
  case (Cons p counts)
  obtain k' v' where p: "p = (k', v')" by (cases p)
  show ?case using Cons by (cases "k' = k") (simp_all add: p)
qed

lemma keys_assign: "fst ` set (assign k v counts) = insert k (fst ` set counts)"
proof -
  have "set (map fst (assign k v counts)) = insert k (fst ` set counts)"
    unfolding map_fst_assign by auto
  then show ?thesis by simp
qed


lemma keys_bump:
  "fst ` set (bump h k counts) = (if k = ''__proto__'' then {} else {k}) \<union> fst ` set counts"
  by (simp add: bump_def keys_assign)

lemma keys_foldl_bump:
  "fst ` set (foldl (\<lambda>counts req. bump h (key req) counts) acc rs)
     = fst ` set acc \<union> {k. \<exists>r \<in> set rs. k = key r \<and> k \<noteq> ''__proto__''}"
  by (induction rs arbitrary: acc) (auto simp: keys_bump)

lemma keys_count_by:
  "fst ` set (count_by h key rs) = {k. \<exists>r \<in> set rs. k = key r \<and> k \<noteq> ''__proto__''}"
  by (simp add: count_by_def keys_foldl_bump)

lemma set_object_keys: "set (object_keys counts) = fst ` set counts"
  by (auto simp: object_keys_def Let_def)

lemma most_frequent_returns:
  "(\<exists>s. most_frequent h key rs = Inr s) \<longleftrightarrow> rs = [] \<or> (\<exists>r \<in> set rs. key r \<noteq> ''__proto__'')"
proof (cases "rs = []")
  case True
  then show ?thesis by (simp add: most_frequent_def)
next
  case False
  have "object_keys (count_by h key rs) = [] \<longleftrightarrow> set (object_keys (count_by h key rs)) = {}"
    by simp
  also have "\<dots> \<longleftrightarrow> {k. \<exists>r \<in> set rs. k = key r \<and> k \<noteq> ''__proto__''} = {}"
    by (simp only: set_object_keys keys_count_by)
  also have "\<dots> \<longleftrightarrow> \<not> (\<exists>r \<in> set rs. key r \<noteq> ''__proto__'')"
    by blast
  finally have "object_keys (count_by h key rs) = [] \<longleftrightarrow> \<not> (\<exists>r \<in> set rs. key r \<noteq> ''__proto__'')" .
  with False show ?thesis
    by (auto simp: most_frequent_def Let_def split: list.splits)
qed

lemma createSummary_returns:
  "(\<exists>s. createSummary h d = Inr s) \<longleftrightarrow>
     d_requests d = [] \<or>
     ((\<exists>r \<in> set (d_requests d). requester r \<noteq> ''__proto__'')
      \<and> (\<exists>r \<in> set (d_requests d). workflowId r \<noteq> ''__proto__''))"
proof -
  have "(\<exists>s. createSummary h d = Inr s) \<longleftrightarrow>
        (\<exists>a. most_frequent h requester (d_requests d) = Inr a)
        \<and> (\<exists>w. most_frequent h workflowId (d_requests d) = Inr w)"
    by (auto simp: createSummary_def getMostActiveRequester_def getMostCommonWorkflow_def
        split: sum.splits)
  then show ?thesis
    by (auto simp only: most_frequent_returns)
qed

lemma createSummary_fields:
  assumes "createSummary h d = Inr s"
  shows "totalRequests s = length (d_requests d)"
    and "pendingRequests s = length (filter (\<lambda>r. status (metadata r) = ''pending'') (d_requests d))"
    and "approvedRequests s = length (filter (\<lambda>r. status (metadata r) = ''approved'') (d_requests d))"
    and "rejectedRequests s = length (filter (\<lambda>r. status (metadata r) = ''rejected'') (d_requests d))"
    and "totalApprovals s = length (d_approvals d)"
    and "totalRejections s = length (d_rejections d)"
    and "totalComments s = length (d_comments d)"
    and "avgApprovalTime s = calculateAverageApprovalTime (d_requests d)"
  using assms by (auto simp: createSummary_def split: sum.splits)

text \<open>
  C9. When every request's status is pending, approved or rejected, the three counts of
  the summary that \<open>createSummary\<close> returns add up to its \<open>totalRequests\<close>, which is
  the length of the request list. A summary is returned exactly when the request list is
  empty or some requester and some workflow id are not \<^verbatim>\<open>__proto__\<close>.
\<close>

theorem createSummary_counts:
  "(createSummary h d = Inr s
      \<and> (\<forall>r \<in> set (d_requests d). status (metadata r) = ''pending''
             \<or> status (metadata r) = ''approved'' \<or> status (metadata r) = ''rejected'')
    \<longrightarrow> pendingRequests s + approvedRequests s + rejectedRequests s = totalRequests s
        \<and> totalRequests s = length (d_requests d))
   \<and> ((\<exists>s. createSummary h d = Inr s) \<longleftrightarrow>
        d_requests d = [] \<or>
        ((\<exists>r \<in> set (d_requests d). requester r \<noteq> ''__proto__'')
         \<and> (\<exists>r \<in> set (d_requests d). workflowId r \<noteq> ''__proto__'')))"
proof (intro conjI impI)
  assume a: "createSummary h d = Inr s
      \<and> (\<forall>r \<in> set (d_requests d). status (metadata r) = ''pending''
             \<or> status (metadata r) = ''approved'' \<or> status (metadata r) = ''rejected'')"
  then have c: "createSummary h d = Inr s" by simp
  from a have "length (filter (\<lambda>r. status (metadata r) = ''pending'') (d_requests d))
     + length (filter (\<lambda>r. status (metadata r) = ''approved'') (d_requests d))
     + length (filter (\<lambda>r. status (metadata r) = ''rejected'') (d_requests d))
     = length (d_requests d)"
    by (intro filter_status_partition) simp
  then show "pendingRequests s + approvedRequests s + rejectedRequests s = totalRequests s"
    by (simp add: createSummary_fields [OF c])
  show "totalRequests s = length (d_requests d)"
    by (rule createSummary_fields [OF c])
next
  show "(\<exists>s. createSummary h d = Inr s) \<longleftrightarrow>
        d_requests d = [] \<or>
        ((\<exists>r \<in> set (d_requests d). requester r \<noteq> ''__proto__'')
         \<and> (\<exists>r \<in> set (d_requests d). workflowId r \<noteq> ''__proto__''))"
    by (rule createSummary_returns)
qed

theorem createSummary_counts_witness:
  "\<exists>s. createSummary sample_host sample_data = Inr s
     \<and> pendingRequests s + approvedRequests s + rejectedRequests s = 3
     \<and> totalRequests s = 3"
proof -
  have r: "d_requests sample_data = [] \<or>
        ((\<exists>r \<in> set (d_requests sample_data). requester r \<noteq> ''__proto__'')
         \<and> (\<exists>r \<in> set (d_requests sample_data). workflowId r \<noteq> ''__proto__''))"
    by (simp add: sample_data_def sample_requests_def mk_request_def)
  from createSummary_counts [where h = sample_host and d = sample_data] r
  obtain s where s: "createSummary sample_host sample_data = Inr s" by blast
  have st: "\<forall>r \<in> set (d_requests sample_data). status (metadata r) = ''pending''
       \<or> status (metadata r) = ''approved'' \<or> status (metadata r) = ''rejected''"
    by (simp add: sample_data_def sample_requests_def mk_request_def)
  have l: "length (d_requests sample_data) = 3"
    by (simp add: sample_data_def sample_requests_def)
  from createSummary_counts [where h = sample_host and d = sample_data and s = s] s st l
  have "pendingRequests s + approvedRequests s + rejectedRequests s = 3 \<and> totalRequests s = 3"
    by simp
  with s show ?thesis by blast
qed

lemma foldl_elapsed: "foldl (\<lambda>sum req. sum + elapsed req) a xs = a + sum_list (map elapsed xs)"
  by (induction xs arbitrary: a) auto

lemma js_rem_nonneg: "0 \<le> a \<Longrightarrow> 0 < b \<Longrightarrow> js_rem a b = a mod b"
  by (cases "a = 0") (simp_all add: js_rem_def)

lemma showInt_nat: "showInt (int n) = showNat n"
  by (simp add: showInt_def)

lemma formatDuration_nonneg:
  assumes "0 \<le> ms"
  shows "formatDuration ms = spec_duration (nat \<lfloor>ms / 1000\<rfloor>)"
proof -
  define n where "n = nat \<lfloor>ms / 1000\<rfloor>"
  have s: "\<lfloor>ms / 1000\<rfloor> = int n"
    using assms by (simp add: n_def)
  have e1: "int n div 60 = int (n div 60)"
    by (simp add: zdiv_int)
  have "n div 60 div 60 = n div 3600" "n div 3600 div 24 = n div 86400"
    by (simp_all add: div_mult2_eq [symmetric])
  then have e2: "int (n div 60) div 60 = int (n div 3600)"
    and e3: "int (n div 3600) div 24 = int (n div 86400)"
    by (simp_all add: zdiv_int [symmetric])
  have c: "n div 86400 > 0 \<longleftrightarrow> n \<ge> 86400" "n div 3600 > 0 \<longleftrightarrow> n \<ge> 3600"
    "n div 60 > 0 \<longleftrightarrow> n \<ge> 60"
    by (simp_all add: div_greater_zero_iff)
  have r: "js_rem (int (n div 3600)) 24 = int (n div 3600 mod 24)"
    "js_rem (int (n div 60)) 60 = int (n div 60 mod 60)"
    "js_rem (int n) 60 = int (n mod 60)"
    by (simp_all add: js_rem_nonneg zmod_int)
  show ?thesis
    unfolding formatDuration_def spec_duration_def Let_def s n_def [symmetric] e1 e2 e3
    by (simp add: c r showInt_nat)
qed

lemma formatDuration_neg:
  assumes "ms < 0"
  shows "formatDuration ms = showInt \<lfloor>ms / 1000\<rfloor> @ ''s''"
proof -
  define s where "s = \<lfloor>ms / 1000\<rfloor>"
  have "ms / 1000 < 0" using assms by simp
  then have n: "s < 0" unfolding s_def by (simp add: floor_less_iff)
  then have "s div 60 < 0" by (simp add: neg_imp_zdiv_neg_iff)
  moreover from this have "s div 60 div 60 < 0" by (simp add: neg_imp_zdiv_neg_iff)
  moreover from this have "s div 60 div 60 div 24 < 0" by (simp add: neg_imp_zdiv_neg_iff)
  ultimately show ?thesis
    unfolding formatDuration_def Let_def s_def [symmetric] by simp
qed

lemma formatDuration_not_NA: "formatDuration ms \<noteq> ''N/A''"
proof -
  have "last (formatDuration ms) \<noteq> CHR ''A''"
    by (simp add: formatDuration_def Let_def)
  then show ?thesis by auto
qed

lemma average_mset:
  assumes "mset rs = mset rs'"
  shows "calculateAverageApprovalTime rs = calculateAverageApprovalTime rs'"
proof -
  have m: "mset (filter approved_completed rs) = mset (filter approved_completed rs')"
    using assms by simp
  then have l: "length (filter approved_completed rs) = length (filter approved_completed rs')"
    by (rule mset_eq_length)
  have "sum_list (map elapsed (filter approved_completed rs))
        = sum_list (map elapsed (filter approved_completed rs'))"
    using m by (metis mset_map sum_mset_sum_list)
  moreover have "filter approved_completed rs = [] \<longleftrightarrow> filter approved_completed rs' = []"
    using l by (metis length_0_conv)
  ultimately show ?thesis
    by (simp add: calculateAverageApprovalTime_def foldl_elapsed l Let_def)
qed

lemma count_mset:
  assumes "mset rs = mset rs'"
  shows "length (filter P rs) = length (filter P rs')"
  using assms by (metis mset_filter mset_eq_length)

lemma average_two_and_four_hours:
  assumes "status (metadata r1) = ''approved''"
    "completedAt (metadata r1) = Some (submittedAt (metadata r1) + 7200000)"
    "status (metadata r2) = ''approved''"
    "completedAt (metadata r2) = Some (submittedAt (metadata r2) + 14400000)"
    "status (metadata r3) = ''pending''"
  shows "calculateAverageApprovalTime [r1, r2, r3] = ''3h 0m''"
  using assms
  by (simp add: calculateAverageApprovalTime_def approved_completed_def elapsed_def
      formatDuration_def Let_def js_rem_def showInt_def showNat.simps digit_def)

text \<open>
  C4, as the code has it. \<open>avgApprovalTime\<close> is \<^verbatim>\<open>N/A\<close> exactly when no request is
  approved with \<open>completedAt\<close> set. Otherwise it is the mean of
  \<open>completedAt - submittedAt\<close> over those requests, in whole seconds: written from its
  coarsest applicable unit when the mean is not negative, and as a number of seconds
  when it is negative. Three requests, in any order, two approved after 2 and 4 hours and
  one pending, give \<^verbatim>\<open>3h 0m\<close> and one pending request in the summary returned.
\<close>

theorem avgApprovalTime_mean:
  "(calculateAverageApprovalTime rs = ''N/A'' \<longleftrightarrow> filter approved_completed rs = [])
   \<and> (filter approved_completed rs \<noteq> [] \<and> in_double_range (filter approved_completed rs)
        \<and> 0 \<le> sum_list (map elapsed (filter approved_completed rs)) \<longrightarrow>
        calculateAverageApprovalTime rs =
          spec_duration (nat \<lfloor>(rat_of_int (sum_list (map elapsed (filter approved_completed rs)))
             / rat_of_nat (length (filter approved_completed rs))) / 1000\<rfloor>))
   \<and> (filter approved_completed rs \<noteq> [] \<and> in_double_range (filter approved_completed rs)
        \<and> sum_list (map elapsed (filter approved_completed rs)) < 0 \<longrightarrow>
        calculateAverageApprovalTime rs =
          showInt \<lfloor>(rat_of_int (sum_list (map elapsed (filter approved_completed rs)))
             / rat_of_nat (length (filter approved_completed rs))) / 1000\<rfloor> @ ''s'')
   \<and> (approved_completed r \<longleftrightarrow>
         status (metadata r) = ''approved'' \<and> (\<exists>e. completedAt (metadata r) = Some e))
   \<and> (completedAt (metadata r) = Some e \<longrightarrow> elapsed r = e - submittedAt (metadata r))
   \<and> (createSummary h d = Inr s
        \<and> mset (d_requests d) = {#r1, r2, r3#}
        \<and> status (metadata r1) = ''approved''
        \<and> completedAt (metadata r1) = Some (submittedAt (metadata r1) + 2 * 3600000)
        \<and> status (metadata r2) = ''approved''
        \<and> completedAt (metadata r2) = Some (submittedAt (metadata r2) + 4 * 3600000)
        \<and> status (metadata r3) = ''pending''
        \<longrightarrow> avgApprovalTime s = ''3h 0m'' \<and> pendingRequests s = 1)"
proof (intro conjI impI)
  let ?A = "filter approved_completed rs"
  show "calculateAverageApprovalTime rs = ''N/A'' \<longleftrightarrow> ?A = []"
    by (simp add: calculateAverageApprovalTime_def Let_def formatDuration_not_NA)
  show "calculateAverageApprovalTime rs =
          spec_duration (nat \<lfloor>(rat_of_int (sum_list (map elapsed ?A)) / rat_of_nat (length ?A)) / 1000\<rfloor>)"
    if a: "?A \<noteq> [] \<and> in_double_range ?A \<and> 0 \<le> sum_list (map elapsed ?A)"
  proof -
    from a have "0 \<le> rat_of_int (sum_list (map elapsed ?A)) / rat_of_nat (length ?A)"
      by simp
    then have "formatDuration (rat_of_int (sum_list (map elapsed ?A)) / rat_of_nat (length ?A))
        = spec_duration (nat \<lfloor>(rat_of_int (sum_list (map elapsed ?A)) / rat_of_nat (length ?A)) / 1000\<rfloor>)"
      by (rule formatDuration_nonneg)
    with a show ?thesis
      by (simp add: calculateAverageApprovalTime_def Let_def foldl_elapsed)
  qed
  show "calculateAverageApprovalTime rs =
          showInt \<lfloor>(rat_of_int (sum_list (map elapsed ?A)) / rat_of_nat (length ?A)) / 1000\<rfloor> @ ''s''"
    if a: "?A \<noteq> [] \<and> in_double_range ?A \<and> sum_list (map elapsed ?A) < 0"
  proof -
    from a have "0 < length ?A" by simp
    with a have "rat_of_int (sum_list (map elapsed ?A)) / rat_of_nat (length ?A) < 0"
      by (simp add: divide_neg_pos)
    then have "formatDuration (rat_of_int (sum_list (map elapsed ?A)) / rat_of_nat (length ?A))
        = showInt \<lfloor>(rat_of_int (sum_list (map elapsed ?A)) / rat_of_nat (length ?A)) / 1000\<rfloor> @ ''s''"
      by (rule formatDuration_neg)
    with a show ?thesis
      by (simp add: calculateAverageApprovalTime_def Let_def foldl_elapsed)
  qed
  show "approved_completed r \<longleftrightarrow>
         status (metadata r) = ''approved'' \<and> (\<exists>e. completedAt (metadata r) = Some e)"
    by (simp add: approved_completed_def)
  show "elapsed r = e - submittedAt (metadata r)" if "completedAt (metadata r) = Some e"
    using that by (simp add: elapsed_def)
next
  assume a: "createSummary h d = Inr s
        \<and> mset (d_requests d) = {#r1, r2, r3#}
        \<and> status (metadata r1) = ''approved''
        \<and> completedAt (metadata r1) = Some (submittedAt (metadata r1) + 2 * 3600000)
        \<and> status (metadata r2) = ''approved''
        \<and> completedAt (metadata r2) = Some (submittedAt (metadata r2) + 4 * 3600000)
        \<and> status (metadata r3) = ''pending''"
  then have c: "createSummary h d = Inr s" by simp
  from a have m: "mset (d_requests d) = mset [r1, r2, r3]" by simp
  have "calculateAverageApprovalTime (d_requests d) = calculateAverageApprovalTime [r1, r2, r3]"
    by (rule average_mset [OF m])
  with a show "avgApprovalTime s = ''3h 0m''"
    by (simp add: createSummary_fields [OF c] average_two_and_four_hours)
  have "length (filter (\<lambda>r. status (metadata r) = ''pending'') (d_requests d))
        = length (filter (\<lambda>r. status (metadata r) = ''pending'') [r1, r2, r3])"
    by (rule count_mset [OF m])
  with a show "pendingRequests s = 1"
    by (simp add: createSummary_fields [OF c])
qed

theorem avgApprovalTime_mean_witness:
  "calculateAverageApprovalTime sample_requests = spec_duration 10800
   \<and> calculateAverageApprovalTime [late_request] = showInt (- 7200) @ ''s''
   \<and> (\<exists>s. createSummary sample_host sample_data = Inr s
          \<and> avgApprovalTime s = ''3h 0m'' \<and> pendingRequests s = 1)"
proof -
  let ?r1 = "mk_request ''R1'' ''A'' ''approved'' 1000 (Some 7201000)"
  let ?r2 = "mk_request ''R2'' ''B'' ''approved'' 5000 (Some 14405000)"
  let ?r3 = "mk_request ''R3'' ''A'' ''pending'' 9000 None"
  have f: "filter approved_completed sample_requests = [?r1, ?r2]"
    by (simp add: sample_requests_def approved_completed_def mk_request_def)
  have e: "elapsed ?r1 = 7200000" "elapsed ?r2 = 14400000"
    by (simp_all add: elapsed_def mk_request_def)
  have p: "filter approved_completed sample_requests \<noteq> []
      \<and> in_double_range (filter approved_completed sample_requests)
      \<and> 0 \<le> sum_list (map elapsed (filter approved_completed sample_requests))"
    by (simp add: f e in_double_range_def)
  have "calculateAverageApprovalTime sample_requests =
          spec_duration (nat \<lfloor>(rat_of_int (sum_list (map elapsed (filter approved_completed sample_requests)))
             / rat_of_nat (length (filter approved_completed sample_requests))) / 1000\<rfloor>)"
    using avgApprovalTime_mean [where rs = sample_requests] p by blast
  then have a: "calculateAverageApprovalTime sample_requests = spec_duration 10800"
    by (simp add: f e)
  have ac: "approved_completed late_request"
    by (simp add: late_request_def approved_completed_def mk_request_def)
  have le: "elapsed late_request = - 7200000"
    by (simp add: late_request_def elapsed_def mk_request_def)
  have q: "filter approved_completed [late_request] \<noteq> []
      \<and> in_double_range (filter approved_completed [late_request])
      \<and> sum_list (map elapsed (filter approved_completed [late_request])) < 0"
    by (simp add: ac le in_double_range_def)
  have "calculateAverageApprovalTime [late_request] =
          showInt \<lfloor>(rat_of_int (sum_list (map elapsed (filter approved_completed [late_request])))
             / rat_of_nat (length (filter approved_completed [late_request]))) / 1000\<rfloor> @ ''s''"
    using avgApprovalTime_mean [where rs = "[late_request]"] q by blast
  then have b: "calculateAverageApprovalTime [late_request] = showInt (- 7200) @ ''s''"
    by (simp add: ac le)
  have "d_requests sample_data = [] \<or>
        ((\<exists>r \<in> set (d_requests sample_data). requester r \<noteq> ''__proto__'')
         \<and> (\<exists>r \<in> set (d_requests sample_data). workflowId r \<noteq> ''__proto__''))"
    by (simp add: sample_data_def sample_requests_def mk_request_def)
  then obtain s where s: "createSummary sample_host sample_data = Inr s"
    using createSummary_returns [of sample_host sample_data] by blast
  have m: "mset (d_requests sample_data) = {#?r1, ?r2, ?r3#}"
    by (simp add: sample_data_def sample_requests_def)
  have st: "status (metadata ?r1) = ''approved''" "status (metadata ?r2) = ''approved''"
    "status (metadata ?r3) = ''pending''"
    "completedAt (metadata ?r1) = Some (submittedAt (metadata ?r1) + 2 * 3600000)"
    "completedAt (metadata ?r2) = Some (submittedAt (metadata ?r2) + 4 * 3600000)"
    by (simp_all add: mk_request_def)
  have c: "avgApprovalTime s = ''3h 0m'' \<and> pendingRequests s = 1"
    using avgApprovalTime_mean [where h = sample_host and d = sample_data and s = s
        and ?r1.0 = ?r1 and ?r2.0 = ?r2 and ?r3.0 = ?r3] s m st
    by blast
  from a b s c show ?thesis by blast
qed

text \<open>
  A mean of minus two hours is written in seconds, not in hours as its size has it.
\<close>

theorem avgApprovalTime_negative_counterexample:
  "elapsed late_request = - (2 * 3600000)
   \<and> calculateAverageApprovalTime [late_request] = ''-7200s''
   \<and> spec_duration 7200 = ''2h 0m''"
  by (simp add: late_request_def mk_request_def elapsed_def calculateAverageApprovalTime_def
      approved_completed_def formatDuration_def Let_def spec_duration_def showInt_def
      showNat.simps digit_def)

lemma most_frequent_single:
  assumes "key r \<noteq> ''__proto__''"
  shows "most_frequent h key [r] = Inr (key r)"
proof -
  obtain c where c: "count_by h key [r] = [(key r, c)]"
    using assms by (simp add: count_by_def bump_def)
  have "object_keys [(key r, c)] = [key r]"
    by (cases "array_index (key r)") (simp_all add: object_keys_def)
  then show ?thesis
    by (simp add: most_frequent_def c)
qed

section \<open>Query Engine: properties\<close>

lemma mset_shift: "mset (shift cmp x ys) = add_mset x (mset ys)"
  by (induction ys) auto

lemma mset_foldl_shift:
  "mset (foldl (\<lambda>done element. shift cmp element done) acc xs) = mset acc + mset xs"
  by (induction xs arbitrary: acc) (auto simp: mset_shift)

lemma mset_array_sort: "mset (array_sort cmp xs) = mset xs"
  by (simp add: array_sort_def mset_foldl_shift)

lemma set_array_sort: "set (array_sort cmp xs) = set xs"
  by (metis mset_array_sort set_mset_mset)

lemma length_array_sort: "length (array_sort cmp xs) = length xs"
  by (metis mset_array_sort size_mset)

lemma mset_take_subseteq: "mset (take n xs) \<subseteq># mset xs"
  by (metis append_take_drop_id mset_append mset_subset_eq_add_left)

lemma mset_slice0: "mset (slice0 xs n) \<subseteq># mset xs"
  by (simp add: slice0_def mset_take_subseteq)

lemma mset_limited: "mset (limited f xs) \<subseteq># mset xs"
  by (simp add: limited_def mset_slice0 split: option.splits)

lemma filtered_filter: "filtered f rs = filter (satisfies f) rs"
  by (auto simp: filtered_def satisfies_def Let_def split: option.splits intro: filter_cong)

lemma d_requests_getExportData:
  "d_requests (snd (getExportData h sys opts)) =
     (let f = (case filters opts of None \<Rightarrow> no_filters | Some f \<Rightarrow> f)
      in limited f (sorted_requests h (objects sys) f (filtered f (requests sys))))"
  by (simp add: getExportData_def Let_def)

lemma mset_sorted_requests: "mset (sorted_requests h store f rs) = mset rs"
  by (simp add: sorted_requests_def Let_def mset_array_sort)

text \<open>
  C3, as the code has it. The requests returned are a sub-multiset of the input; each of
  them meets every criterion that is supplied and, for \<open>status\<close>, \<open>requester\<close> and
  \<open>workflowId\<close>, not the empty string (the date range is inclusive at both ends); with
  no criterion, or no \<open>filters\<close> at all, the result is the whole input, reordered by the
  sort; when no request meets the criteria the result is the empty list.
\<close>

theorem query_filter_sound:
  "mset (d_requests (snd (getExportData h sys (opts\<lparr>filters := Some f\<rparr>)))) \<subseteq># mset (requests sys)
   \<and> (\<forall>r \<in> set (d_requests (snd (getExportData h sys (opts\<lparr>filters := Some f\<rparr>)))).
         satisfies f r
         \<and> (\<forall>start end. dateRange_f f = Some (start, end) \<longrightarrow>
               start \<le> submittedAt (metadata r) \<and> submittedAt (metadata r) \<le> end)
         \<and> (\<forall>s. status_f f = Some s \<and> s \<noteq> [] \<longrightarrow> status (metadata r) = s)
         \<and> (\<forall>s. requester_f f = Some s \<and> s \<noteq> [] \<longrightarrow> requester r = s)
         \<and> (\<forall>s. workflowId_f f = Some s \<and> s \<noteq> [] \<longrightarrow> workflowId r = s))
   \<and> (dateRange_f f = None \<and> status_f f = None \<and> requester_f f = None \<and> workflowId_f f = None
         \<and> limit_f f = None \<longrightarrow>
       mset (d_requests (snd (getExportData h sys (opts\<lparr>filters := Some f\<rparr>)))) = mset (requests sys))
   \<and> mset (d_requests (snd (getExportData h sys (opts\<lparr>filters := None\<rparr>)))) = mset (requests sys)
   \<and> ((\<forall>r \<in> set (requests sys). \<not> satisfies f r) \<longrightarrow>
       d_requests (snd (getExportData h sys (opts\<lparr>filters := Some f\<rparr>))) = [])"
proof -
  let ?out = "d_requests (snd (getExportData h sys (opts\<lparr>filters := Some f\<rparr>)))"
  let ?fs = "filter (satisfies f) (requests sys)"
  have out: "?out = limited f (sorted_requests h (objects sys) f ?fs)"
    by (simp add: d_requests_getExportData filtered_filter)
  have sub: "mset ?out \<subseteq># mset ?fs"
    unfolding out using mset_limited [of f "sorted_requests h (objects sys) f ?fs"]
    by (simp add: mset_sorted_requests)
  have 1: "mset ?out \<subseteq># mset (requests sys)"
    using sub by (rule subset_mset.order_trans) simp
  have sat: "satisfies f r" if "r \<in> set ?out" for r
  proof -
    from that sub have "r \<in> set ?fs"
      by (metis mset_subset_eqD set_mset_mset)
    then show ?thesis by simp
  qed
  have 2: "satisfies f r
         \<and> (\<forall>start end. dateRange_f f = Some (start, end) \<longrightarrow>
               start \<le> submittedAt (metadata r) \<and> submittedAt (metadata r) \<le> end)
         \<and> (\<forall>s. status_f f = Some s \<and> s \<noteq> [] \<longrightarrow> status (metadata r) = s)
         \<and> (\<forall>s. requester_f f = Some s \<and> s \<noteq> [] \<longrightarrow> requester r = s)
         \<and> (\<forall>s. workflowId_f f = Some s \<and> s \<noteq> [] \<longrightarrow> workflowId r = s)"
    if "r \<in> set ?out" for r
    using sat [OF that] by (auto simp: satisfies_def given_def)
  have 3: "mset ?out = mset (requests sys)"
    if "dateRange_f f = None \<and> status_f f = None \<and> requester_f f = None \<and> workflowId_f f = None
         \<and> limit_f f = None"
  proof -
    from that have "satisfies f r" for r by (simp add: satisfies_def given_def)
    then have "?fs = requests sys" by simp
    with that show ?thesis by (simp add: out limited_def mset_sorted_requests)
  qed
  have 4: "mset (d_requests (snd (getExportData h sys (opts\<lparr>filters := None\<rparr>)))) = mset (requests sys)"
    by (simp add: d_requests_getExportData filtered_def no_filters_def given_def limited_def
        mset_sorted_requests)
  have 5: "?out = []" if "\<forall>r \<in> set (requests sys). \<not> satisfies f r"
  proof -
    from that have "?fs = []" by (simp add: filter_empty_conv)
    with sub show ?thesis by simp
  qed
  from 1 2 3 4 5 show ?thesis by blast
qed


theorem query_filter_sound_witness:
  "mset (d_requests (snd (getExportData sample_host sample_system
       (sample_options\<lparr>filters := Some (no_filters\<lparr>status_f := Some ''approved''\<rparr>)\<rparr>))))
     \<subseteq># mset (requests sample_system)
   \<and> mset (d_requests (snd (getExportData sample_host sample_system
       (sample_options\<lparr>filters := Some no_filters\<rparr>)))) = mset (requests sample_system)
   \<and> d_requests (snd (getExportData sample_host sample_system
       (sample_options\<lparr>filters := Some (no_filters\<lparr>status_f := Some ''rejected''\<rparr>)\<rparr>))) = []
   \<and> length (requests sample_system) = 3"
proof -
  have a: "mset (d_requests (snd (getExportData sample_host sample_system
       (sample_options\<lparr>filters := Some (no_filters\<lparr>status_f := Some ''approved''\<rparr>)\<rparr>))))
     \<subseteq># mset (requests sample_system)"
    using query_filter_sound [where h = sample_host and sys = sample_system
        and opts = sample_options and f = "no_filters\<lparr>status_f := Some ''approved''\<rparr>"]
    by (rule conjunct1)
  have n: "dateRange_f no_filters = None \<and> status_f no_filters = None \<and> requester_f no_filters = None
      \<and> workflowId_f no_filters = None \<and> limit_f no_filters = None"
    by (simp add: no_filters_def)
  have b: "mset (d_requests (snd (getExportData sample_host sample_system
       (sample_options\<lparr>filters := Some no_filters\<rparr>)))) = mset (requests sample_system)"
    using query_filter_sound [where h = sample_host and sys = sample_system
        and opts = sample_options and f = no_filters] n
    by blast
  have r: "\<forall>r \<in> set (requests sample_system). \<not> satisfies (no_filters\<lparr>status_f := Some ''rejected''\<rparr>) r"
    by (simp add: sample_system_def sample_requests_def mk_request_def satisfies_def given_def
        no_filters_def)
  have c: "d_requests (snd (getExportData sample_host sample_system
       (sample_options\<lparr>filters := Some (no_filters\<lparr>status_f := Some ''rejected''\<rparr>)\<rparr>))) = []"
    using query_filter_sound [where h = sample_host and sys = sample_system
        and opts = sample_options and f = "no_filters\<lparr>status_f := Some ''rejected''\<rparr>"] r
    by blast
  have l: "length (requests sample_system) = 3"
    by (simp add: sample_system_def sample_requests_def)
  from a b c l show ?thesis by blast
qed

text \<open>
  A status criterion that is the empty string is skipped by \<^verbatim>\<open>if (filters.status)\<close>:
  the approved request R1 is returned, though its status is not the criterion.
\<close>

theorem query_filter_empty_string_counterexample:
  "status_f (no_filters\<lparr>status_f := Some []\<rparr>) = Some []
   \<and> mk_request ''R1'' ''A'' ''approved'' 1000 (Some 7201000)
       \<in> set (d_requests (snd (getExportData sample_host sample_system
                (sample_options\<lparr>filters := Some (no_filters\<lparr>status_f := Some []\<rparr>)\<rparr>))))
   \<and> status (metadata (mk_request ''R1'' ''A'' ''approved'' 1000 (Some 7201000))) \<noteq> []"
  by (simp add: d_requests_getExportData filtered_def no_filters_def given_def limited_def
      sorted_requests_def set_array_sort sample_system_def sample_requests_def mk_request_def)


text \<open>
  C7, as the code has it. A limit \<open>n \<ge> 1\<close> returns the first \<open>n\<close> requests of the
  filtered, sorted sequence (what the same query returns without the limit), so at most
  \<open>n\<close> of them; a limit of 0 is falsy in \<^verbatim>\<open>if (filters.limit)\<close> and truncates nothing.
\<close>

theorem limit_truncates:
  "(limit_f f = Some n \<and> n \<ge> 1 \<longrightarrow>
      d_requests (snd (getExportData h sys (opts\<lparr>filters := Some f\<rparr>)))
        = take (nat n) (d_requests (snd (getExportData h sys (opts\<lparr>filters := Some (f\<lparr>limit_f := None\<rparr>)\<rparr>))))
      \<and> length (d_requests (snd (getExportData h sys (opts\<lparr>filters := Some f\<rparr>)))) \<le> nat n)
   \<and> (limit_f f = Some 0 \<longrightarrow>
      d_requests (snd (getExportData h sys (opts\<lparr>filters := Some f\<rparr>)))
        = d_requests (snd (getExportData h sys (opts\<lparr>filters := Some (f\<lparr>limit_f := None\<rparr>)\<rparr>))))
   \<and> d_requests (snd (getExportData h sys (opts\<lparr>filters := Some (f\<lparr>limit_f := None\<rparr>)\<rparr>)))
        = sorted_requests h (objects sys) f (filtered f (requests sys))"
  by (simp add: d_requests_getExportData limited_def slice0_def filtered_def sorted_requests_def)


theorem limit_truncates_witness:
  "length (d_requests (snd (getExportData sample_host sample_system
       (sample_options\<lparr>filters := Some (no_filters\<lparr>limit_f := Some 2\<rparr>)\<rparr>)))) \<le> 2
   \<and> d_requests (snd (getExportData sample_host sample_system
       (sample_options\<lparr>filters := Some (no_filters\<lparr>limit_f := Some 2\<rparr>)\<rparr>)))
     = take 2 (d_requests (snd (getExportData sample_host sample_system
       (sample_options\<lparr>filters := Some no_filters\<rparr>))))
   \<and> d_requests (snd (getExportData sample_host sample_system
       (sample_options\<lparr>filters := Some (no_filters\<lparr>limit_f := Some 0\<rparr>)\<rparr>)))
     = d_requests (snd (getExportData sample_host sample_system
       (sample_options\<lparr>filters := Some no_filters\<rparr>)))"
proof -
  have n: "no_filters\<lparr>limit_f := None\<rparr> = no_filters"
    by (simp add: no_filters_def)
  have two: "limit_f (no_filters\<lparr>limit_f := Some 2\<rparr>) = Some 2 \<and> (2::int) \<ge> 1"
    by simp
  have zero: "limit_f (no_filters\<lparr>limit_f := Some 0\<rparr>) = Some 0"
    by simp
  show ?thesis
    using limit_truncates [where f = "no_filters\<lparr>limit_f := Some 2\<rparr>" and n = 2
        and h = sample_host and sys = sample_system and opts = sample_options]
      limit_truncates [where f = "no_filters\<lparr>limit_f := Some 0\<rparr>" and n = 0
        and h = sample_host and sys = sample_system and opts = sample_options]
      two zero
    by (simp add: n)
qed

text \<open>With a limit of 0 the three requests of the sample system are all returned.\<close>

theorem limit_zero_counterexample:
  "limit_f (no_filters\<lparr>limit_f := Some 0\<rparr>) = Some 0
   \<and> length (d_requests (snd (getExportData sample_host sample_system
                (sample_options\<lparr>filters := Some (no_filters\<lparr>limit_f := Some 0\<rparr>)\<rparr>)))) = 3"
  by (simp add: d_requests_getExportData filtered_def no_filters_def given_def limited_def
      sorted_requests_def length_array_sort sample_system_def sample_requests_def)
lemma sortValue_submittedAt:
  "sortValue h store ''submittedAt'' r = PNumber (submittedAt (metadata r))"
  by (simp add: sortValue_def metadata_obj_def get_prop_def falsy_def newDate_def Let_def)

lemma compareFn_asc:
  "compareFn h store ''submittedAt'' ''asc'' a b > 0
     \<longleftrightarrow> submittedAt (metadata b) < submittedAt (metadata a)"
  by (simp add: compareFn_def sortValue_submittedAt js_gt_def js_lt_def toNumber_def Let_def)

lemma compareFn_desc:
  "compareFn h store ''submittedAt'' ''desc'' a b > 0
     \<longleftrightarrow> submittedAt (metadata a) < submittedAt (metadata b)"
  by (simp add: compareFn_def sortValue_submittedAt js_lt_def toNumber_def Let_def)

text \<open>The part already sorted, read from right to left, stays in descending key order.\<close>

lemma set_shift: "set (shift cmp x ys) = insert x (set ys)"
  by (induction ys) auto

lemma shift_sorted:
  fixes k :: "'a \<Rightarrow> int"
  assumes c: "\<forall>a b. cmp a b > 0 \<longleftrightarrow> k b < k a"
    and "sorted (rev (map k acc))"
  shows "sorted (rev (map k (shift cmp x acc)))"
  using assms(2)
proof (induction acc)
  case Nil
  then show ?case by simp
next
  case (Cons tmp rest)
  show ?case
  proof (cases "cmp tmp x > 0")
    case True
    then have "k x < k tmp" using c by simp
    moreover have "sorted (rev (map k (shift cmp x rest)))"
      using Cons by (simp add: sorted_append)
    moreover have "\<forall>y \<in> set rest. k y \<le> k tmp"
      using Cons.prems by (auto simp: sorted_append)
    ultimately show ?thesis
      using True by (auto simp: sorted_append set_shift)
  next
    case False
    then have "k tmp \<le> k x" using c by (simp add: not_less)
    moreover have "\<forall>y \<in> set rest. k y \<le> k tmp"
      using Cons.prems by (auto simp: sorted_append)
    ultimately show ?thesis
      using False Cons.prems by (fastforce simp: sorted_append)
  qed
qed

lemma foldl_shift_sorted:
  fixes k :: "'a \<Rightarrow> int"
  assumes c: "\<forall>a b. cmp a b > 0 \<longleftrightarrow> k b < k a"
  shows "sorted (rev (map k acc)) \<Longrightarrow>
         sorted (rev (map k (foldl (\<lambda>done element. shift cmp element done) acc xs)))"
proof (induction xs arbitrary: acc)
  case Nil
  then show ?case by simp
next
  case (Cons x xs)
  have "sorted (rev (map k (shift cmp x acc)))"
    using c Cons.prems by (rule shift_sorted)
  then show ?case using Cons.IH by simp
qed

lemma array_sort_sorted:
  fixes k :: "'a \<Rightarrow> int"
  assumes c: "\<forall>a b. cmp a b > 0 \<longleftrightarrow> k b < k a"
  shows "sorted (map k (array_sort cmp xs))"
proof -
  have "sorted (rev (map k (foldl (\<lambda>done element. shift cmp element done) [] xs)))"
    using c by (rule foldl_shift_sorted) simp
  then show ?thesis by (simp add: array_sort_def rev_map)
qed

lemma array_sort_key:
  fixes k :: "'a \<Rightarrow> int"
  assumes c: "\<forall>a b. cmp a b > 0 \<longleftrightarrow> k b < k a"
  shows "map k (array_sort cmp xs) = sort (map k xs)"
proof -
  have m: "mset (map k (array_sort cmp xs)) = mset (map k xs)"
    by (simp add: mset_array_sort)
  have s: "sorted (map k (array_sort cmp xs))"
    using c by (rule array_sort_sorted)
  from m s have "sort (map k xs) = map k (array_sort cmp xs)"
    by (rule properties_for_sort)
  then show ?thesis by simp
qed

lemma sorted_uminus_rev:
  fixes xs :: "int list"
  shows "sorted (map uminus xs) \<Longrightarrow> sorted (rev xs)"
  by (induction xs) (auto simp: sorted_append)

lemma array_sort_desc_key:
  fixes k :: "'a \<Rightarrow> int"
  assumes c: "\<forall>a b. cmp a b > 0 \<longleftrightarrow> k a < k b"
  shows "map k (rev (array_sort cmp xs)) = sort (map k xs)"
proof -
  have c': "\<forall>a b. cmp a b > 0 \<longleftrightarrow> - k b < - k a" using c by simp
  have "sorted (map (\<lambda>a. - k a) (array_sort cmp xs))"
    using c' by (rule array_sort_sorted)
  then have "sorted (map uminus (map k (array_sort cmp xs)))" by (simp add: comp_def)
  then have s: "sorted (rev (map k (array_sort cmp xs)))" by (rule sorted_uminus_rev)
  have m: "mset (rev (map k (array_sort cmp xs))) = mset (map k xs)"
    by (simp add: mset_array_sort)
  from m s have "sort (map k xs) = rev (map k (array_sort cmp xs))"
    by (rule properties_for_sort)
  then show ?thesis by (simp add: rev_map)
qed

lemma desc_is_rev_asc:
  fixes k :: "'a \<Rightarrow> int"
  assumes asc: "\<forall>a b. up a b > 0 \<longleftrightarrow> k b < k a"
    and desc: "\<forall>a b. down a b > 0 \<longleftrightarrow> k a < k b"
    and d: "distinct (map k xs)"
  shows "array_sort down xs = rev (array_sort up xs)"
proof -
  have "map k (rev (array_sort down xs)) = map k (array_sort up xs)"
    by (simp only: array_sort_desc_key [OF desc] array_sort_key [OF asc])
  moreover have "inj_on k (set (rev (array_sort down xs)) \<union> set (array_sort up xs))"
    using d by (simp add: set_array_sort distinct_map)
  ultimately have "rev (array_sort down xs) = array_sort up xs"
    by (simp only: inj_on_map_eq_map)
  then show ?thesis by (metis rev_rev_ident)
qed


text \<open>
  C6. When the \<open>submittedAt\<close> timestamps of the records are pairwise distinct, sorting by
  \<open>submittedAt\<close> in descending order returns the reverse of what ascending order
  returns, for the same records and the same filter criteria.
\<close>

theorem sort_desc_reverses_asc:
  assumes "distinct (map (\<lambda>r. submittedAt (metadata r)) (requests sys))"
    and "limit_f f = None"
  shows "d_requests (snd (getExportData h sys
            (opts\<lparr>filters := Some (f\<lparr>sortBy_f := Some ''submittedAt'', sortOrder_f := Some ''desc''\<rparr>)\<rparr>)))
       = rev (d_requests (snd (getExportData h sys
            (opts\<lparr>filters := Some (f\<lparr>sortBy_f := Some ''submittedAt'', sortOrder_f := Some ''asc''\<rparr>)\<rparr>))))"
proof -
  let ?fs = "filter (satisfies f) (requests sys)"
  have s: "satisfies (f\<lparr>sortBy_f := Some ''submittedAt'', sortOrder_f := Some o'\<rparr>) = satisfies f" for o'
    by (rule ext) (simp add: satisfies_def)
  have d: "distinct (map (\<lambda>r. submittedAt (metadata r)) ?fs)"
    using assms(1) by (rule distinct_map_filter)
  have "array_sort (compareFn h (objects sys) ''submittedAt'' ''desc'') ?fs
        = rev (array_sort (compareFn h (objects sys) ''submittedAt'' ''asc'') ?fs)"
    using d by (intro desc_is_rev_asc [where k = "\<lambda>r. submittedAt (metadata r)"])
      (simp_all add: compareFn_asc compareFn_desc)
  then show ?thesis
    using assms(2)
    by (simp add: d_requests_getExportData filtered_filter s limited_def sorted_requests_def
        given_def)
qed

theorem sort_desc_reverses_asc_witness:
  "distinct (map (\<lambda>r. submittedAt (metadata r)) (requests sample_system))
   \<and> d_requests (snd (getExportData sample_host sample_system
        (sample_options\<lparr>filters :=
           Some (no_filters\<lparr>sortBy_f := Some ''submittedAt'', sortOrder_f := Some ''desc''\<rparr>)\<rparr>)))
     = rev (d_requests (snd (getExportData sample_host sample_system
        (sample_options\<lparr>filters :=
           Some (no_filters\<lparr>sortBy_f := Some ''submittedAt'', sortOrder_f := Some ''asc''\<rparr>)\<rparr>))))
   \<and> length (requests sample_system) = 3"
proof -
  have d: "distinct (map (\<lambda>r. submittedAt (metadata r)) (requests sample_system))"
    by (simp add: sample_system_def sample_requests_def mk_request_def)
  have l: "limit_f no_filters = None"
    by (simp add: no_filters_def)
  have n: "length (requests sample_system) = 3"
    by (simp add: sample_system_def sample_requests_def)
  show ?thesis
    using d sort_desc_reverses_asc [OF d l, where h = sample_host and opts = sample_options] n by simp
qed

section \<open>Export Orchestrator: properties\<close>

lemma toLowerCase_samples:
  "toLowerCase ''json'' = ''json''" "toLowerCase ''CSV'' = ''csv''" "toLowerCase ''bogus'' = ''bogus''"
  by code_simp+

lemma array_sort_single [simp]: "array_sort cmp [x] = [x]"
  by (simp add: array_sort_def)


text \<open>
  C2, as the code has it. The format is lower-cased before it is looked up: when the
  lower-cased format is not among the supported formats, \<open>exportData\<close> fails with the
  error whose message lists them and leaves the system as it was. Every run of the Query
  Engine adds one to the count of \<^verbatim>\<open>getStatistics()\<close> calls, so it has not run.
\<close>

theorem exportData_unsupported:
  assumes "toLowerCase format \<notin> set (exportFormats es)"
  shows "exportData h rs es format opts =
           (Inl (Error (''Unsupported format: '' @ format @ ''. Supported formats: ''
                        @ join '', '' (exportFormats es))), es)
         \<and> statisticsCalls (fst (getExportData h (approvalSystem es) opts'))
             = statisticsCalls (approvalSystem es) + 1"
  using assms by (simp add: exportData_def getExportData_def Let_def)

theorem exportData_unsupported_witness:
  "exportData sample_host sample_renderers (newExportSystem sample_system) ''bogus'' sample_options
     = (Inl (Error ''Unsupported format: bogus. Supported formats: csv, json, excel, pdf, xml''),
        newExportSystem sample_system)"
proof -
  have h: "toLowerCase ''bogus'' \<notin> set (exportFormats (newExportSystem sample_system))"
    by (simp add: toLowerCase_samples newExportSystem_def)
  have j: "join '', '' (exportFormats (newExportSystem sample_system)) = ''csv, json, excel, pdf, xml''"
    by (simp add: newExportSystem_def)
  show ?thesis
    using exportData_unsupported [OF h, where h = sample_host and rs = sample_renderers
        and opts = sample_options and opts' = sample_options]
    by (simp add: j)
qed


text \<open>
  The format \<^verbatim>\<open>CSV\<close> is not a member of the supported list, yet the export succeeds
  and the Query Engine has run.
\<close>

theorem exportData_uppercase_counterexample:
  "''CSV'' \<notin> set (exportFormats (newExportSystem sample_system))
   \<and> fst (exportData sample_host sample_renderers (newExportSystem sample_system) ''CSV'' sample_options)
       \<noteq> Inl (Error ''Unsupported format: CSV. Supported formats: csv, json, excel, pdf, xml'')
   \<and> map_sum id content
        (fst (exportData sample_host sample_renderers (newExportSystem sample_system) ''CSV'' sample_options))
       = Inr ''ID''
   \<and> statisticsCalls (approvalSystem (newExportSystem sample_system)) = 0
   \<and> statisticsCalls (approvalSystem
        (snd (exportData sample_host sample_renderers (newExportSystem sample_system) ''CSV'' sample_options))) = 1"
  by (simp add: exportData_def toLowerCase_samples newExportSystem_def getExportData_def Let_def
      sample_renderers_def sample_system_def rendered.defs)


text \<open>
  C8. The minimal JSON export of the one request with id R1, requester A, subject S,
  status pending, submission time \<open>T\<close> and workflow id W1 serializes the object whose
  \<open>requests\<close> property is the one six-property object shown, with \<open>workflowId\<close> under
  the name \<open>workflow\<close>, and whose \<open>summary\<close> property is the object shown, with
  \<open>totalRequests\<close> 1.
\<close>

theorem minimal_export:
  fixes h rs sys r m T opts
  defines "es \<equiv> newExportSystem (sys\<lparr>requests :=
           [r\<lparr>req_id := ''R1'', requester := ''A'', subject := ''S'', workflowId := ''W1'',
              metadata := m\<lparr>status := ''pending'', submittedAt := T\<rparr>\<rparr>]\<rparr>)"
    and "o' \<equiv> opts\<lparr>filters := None, mode := Some ''minimal''\<rparr>"
  shows "map_sum id content (fst (exportData h rs es ''json'' o'))
       = Inr (stringify h (JObj
          [(''requests'', JArr [JObj
              [(''id'', JStr ''R1''), (''requester'', JStr ''A''), (''subject'', JStr ''S''),
               (''status'', JStr ''pending''), (''submittedAt'', JDate T),
               (''workflow'', JStr ''W1'')]]),
           (''summary'', JObj
              [(''totalRequests'', JNum 1),
               (''pendingRequests'', JNum 1),
               (''approvedRequests'', JNum 0),
               (''rejectedRequests'', JNum 0),
               (''totalApprovals'', JNum (int (length (approvals m)))),
               (''totalRejections'', JNum (int (length (rejections m)))),
               (''totalComments'', JNum (int (length (comments m)))),
               (''avgApprovalTime'', JStr ''N/A''),
               (''mostActiveRequester'', JStr ''A''),
               (''mostCommonWorkflow'', JStr ''W1'')])]))"
proof -
  let ?r = "r\<lparr>req_id := ''R1'', requester := ''A'', subject := ''S'', workflowId := ''W1'',
              metadata := m\<lparr>status := ''pending'', submittedAt := T\<rparr>\<rparr>"
  have a: "getMostActiveRequester h [?r] = Inr ''A''"
    using most_frequent_single [of requester ?r h] by (simp add: getMostActiveRequester_def)
  have w: "getMostCommonWorkflow h [?r] = Inr ''W1''"
    using most_frequent_single [of workflowId ?r h] by (simp add: getMostCommonWorkflow_def)
  have n: "calculateAverageApprovalTime [?r] = ''N/A''"
    by (simp add: calculateAverageApprovalTime_def approved_completed_def)
  show ?thesis
    by (simp add: es_def o'_def exportData_def toLowerCase_samples newExportSystem_def
        getExportData_def Let_def no_filters_def filtered_def given_def sorted_requests_def
        limited_def exportToJson_def createMinimalData_def minimal_request_def createSummary_def
        summary_obj_def json_rendered_def related_def a w n rendered.defs)
qed

section \<open>Source records under the structured-data renderer\<close>

text \<open>
  C1. A full-mode JSON export of the system \<open>shared_system\<close> removes \<^verbatim>\<open>approvers\<close>
  from the workflow object and \<^verbatim>\<open>sensitiveInfo\<close> from the data object that the source
  request refers to: the request read from the system after the call is not the one
  read before it.
\<close>

theorem sanitizeRequest_deletes_shared:
  "objects shared_system 0
     = Some [(''name'', JStr ''Standard''), (''approvers'', JArr [JStr ''alice'', JStr ''bob''])]
   \<and> objects shared_system 1 = Some [(''sensitiveInfo'', JStr ''secret''), (''note'', JStr ''n'')]
   \<and> objects (approvalSystem (snd (exportData sample_host sample_renderers
        (newExportSystem shared_system) ''json'' sample_options))) 0
     = Some [(''name'', JStr ''Standard'')]
   \<and> objects (approvalSystem (snd (exportData sample_host sample_renderers
        (newExportSystem shared_system) ''json'' sample_options))) 1
     = Some [(''note'', JStr ''n'')]
   \<and> request_obj (objects (approvalSystem (snd (exportData sample_host sample_renderers
        (newExportSystem shared_system) ''json'' sample_options)))) shared_request
     \<noteq> request_obj (objects shared_system) shared_request"
  by (simp add: exportData_def toLowerCase_samples newExportSystem_def getExportData_def Let_def
      shared_system_def shared_request_def sample_options_def no_filters_def filtered_def given_def
      sorted_requests_def limited_def exportToJson_def sanitizeRequest_def delete_at_def
      delete_prop_def related_def request_obj_def deref_def)

end
